theory Spec2Isabelle
  imports Complex_Main "HOL-Library.Char_ord" "HOL-Library.List_Lexorder"
    "HOL-Library.Product_Lexorder" "HOL-Library.Multiset"
begin

section \<open>Tables of dynamically typed cells\<close>

text \<open>
  The programs of \<^verbatim>\<open>utils.py\<close> and \<^verbatim>\<open>01_limpieza_datasets.py\<close> work on pandas
  data frames. A frame is modelled by the list of its column labels and the list of its rows,
  a row being a finite map from column labels to cells. A cell is what one entry of an
  \<^verbatim>\<open>object\<close> column can hold: the missing value (\<^verbatim>\<open>NaN\<close>, \<^verbatim>\<open>NaT\<close>), a string, a number, an
  infinite float (the flag is its sign, \<open>True\<close> for \<^verbatim>\<open>+inf\<close>), or a timestamp in
  nanoseconds since the epoch.

  Boundaries of the model. Numbers are real numbers, so float rounding and overflow are
  not represented, and \<^verbatim>\<open>1\<close> and \<^verbatim>\<open>1.0\<close> are the same cell. Strings are lists of
  bytes, the UTF-8 encoding of the Python string. Columns have no \<^verbatim>\<open>dtype\<close>: every
  column behaves as an \<^verbatim>\<open>object\<close> column. Row labels are positions, that is, every frame
  carries the default index \<^verbatim>\<open>0..n-1\<close> or an index that is duplicate free, as all frames
  built by the script do, and column labels are duplicate free.
\<close>

datatype cell = NA | Str string | Num real | Inf bool | Date int

type_synonym row = "string \<rightharpoonup> cell"

record frame =
  columns :: "string list"
  rows :: "row list"

datatype error = KeyError "string list" | ZeroDivisionError | TypeError | ValueError

definition bind :: "error + 'a \<Rightarrow> ('a \<Rightarrow> error + 'b) \<Rightarrow> error + 'b" where
  "bind m f = (case m of Inl e \<Rightarrow> Inl e | Inr x \<Rightarrow> f x)"

definition cell_at :: "row \<Rightarrow> string \<Rightarrow> cell" where
  "cell_at r c = (case r c of None \<Rightarrow> NA | Some v \<Rightarrow> v)"

text \<open>\<^verbatim>\<open>df[c]\<close>: the column, or \<^verbatim>\<open>KeyError\<close> naming the label.\<close>

definition getitem :: "frame \<Rightarrow> string \<Rightarrow> error + cell list" where
  "getitem df c =
     (if c \<in> set (columns df) then Inr (map (\<lambda>r. cell_at r c) (rows df))
      else Inl (KeyError [c]))"

text \<open>
  \<^verbatim>\<open>df[c] = values\<close>, the values being aligned with the rows of \<open>df\<close>: an existing column
  is overwritten where it stands, a new one is appended.
\<close>

definition setitem :: "frame \<Rightarrow> string \<Rightarrow> cell list \<Rightarrow> frame" where
  "setitem df c vs =
     \<lparr>columns = (if c \<in> set (columns df) then columns df else columns df @ [c]),
      rows = map (\<lambda>(r, v). r(c \<mapsto> v)) (zip (rows df) vs)\<rparr>"

text \<open>Selection of the entries of a column at which a boolean mask holds.\<close>

definition select :: "bool list \<Rightarrow> 'a list \<Rightarrow> 'a list" where
  "select msk xs = map snd (filter fst (zip msk xs))"

text \<open>\<^verbatim>\<open>Series.unique()\<close>: the distinct values, in order of first appearance.\<close>

definition unique :: "'a list \<Rightarrow> 'a list" where
  "unique xs = rev (remdups (rev xs))"

section \<open>The pandas operations the programs use\<close>

text \<open>\<^verbatim>\<open>df[[c1, ..., cn]]\<close>: the frame of these columns, or \<^verbatim>\<open>KeyError\<close> naming the missing labels.\<close>

definition getitems :: "frame \<Rightarrow> string list \<Rightarrow> error + frame" where
  "getitems df cs =
     (let missing = filter (\<lambda>c. c \<notin> set (columns df)) cs
      in if missing \<noteq> [] then Inl (KeyError missing)
         else Inr \<lparr>columns = cs, rows = map (\<lambda>r. r |` set cs) (rows df)\<rparr>)"

text \<open>\<^verbatim>\<open>df[mask]\<close>: the rows at which the mask holds, in their order; a new frame.\<close>

definition filtrar :: "frame \<Rightarrow> bool list \<Rightarrow> frame" where
  "filtrar df msk = \<lparr>columns = columns df, rows = select msk (rows df)\<rparr>"

text \<open>
  \<^verbatim>\<open>df.loc[mask, cols] = np.nan\<close>. Labels of \<open>cols\<close> that are no column yet are added as new
  columns, missing everywhere.
\<close>

definition anular :: "string list \<Rightarrow> row \<Rightarrow> row" where
  "anular cs r = (\<lambda>c. if c \<in> set cs then Some NA else r c)"

definition loc_set_nan :: "frame \<Rightarrow> bool list \<Rightarrow> string list \<Rightarrow> frame" where
  "loc_set_nan df msk cols =
     (let nuevas = filter (\<lambda>c. c \<notin> set (columns df)) (remdups cols)
      in \<lparr>columns = columns df @ nuevas,
          rows = map (\<lambda>(r, m). if m then anular cols r else anular nuevas r)
                   (zip (rows df) msk)\<rparr>)"

text \<open>\<^verbatim>\<open>df.drop(columns=cs)\<close>, for labels that are columns of \<open>df\<close>.\<close>

definition drop_columns :: "frame \<Rightarrow> string list \<Rightarrow> error + frame" where
  "drop_columns df cs =
     (let missing = filter (\<lambda>c. c \<notin> set (columns df)) cs
      in if missing \<noteq> [] then Inl (KeyError missing)
         else Inr \<lparr>columns = filter (\<lambda>c. c \<notin> set cs) (columns df),
                   rows = map (\<lambda>r. r |` (- set cs)) (rows df)\<rparr>)"

text \<open>
  \<^verbatim>\<open>df.reset_index()\<close> on a frame with the default index: the row positions become a first
  column, named \<^verbatim>\<open>index\<close>, or \<^verbatim>\<open>level_0\<close> when there is a column \<^verbatim>\<open>index\<close> already.
\<close>

definition insert_index :: "frame \<Rightarrow> string \<Rightarrow> frame" where
  "insert_index df c =
     \<lparr>columns = c # columns df,
      rows = map (\<lambda>(i, r). r(c \<mapsto> Num (of_nat i))) (enumerate 0 (rows df))\<rparr>"

definition reset_index :: "frame \<Rightarrow> error + frame" where
  "reset_index df =
     (if ''index'' \<notin> set (columns df) then Inr (insert_index df ''index'')
      else if ''level_0'' \<notin> set (columns df) then Inr (insert_index df ''level_0'')
      else Inl ValueError)"

text \<open>\<^verbatim>\<open>df.rename(columns={old: new})\<close>, where \<open>new\<close> is no column of \<open>df\<close>.\<close>

definition rename :: "frame \<Rightarrow> string \<Rightarrow> string \<Rightarrow> frame" where
  "rename df old new =
     (if old \<in> set (columns df)
      then \<lparr>columns = map (\<lambda>c. if c = old then new else c) (columns df),
            rows = map (\<lambda>r. (r(old := None))(new := r old)) (rows df)\<rparr>
      else df)"

text \<open>
  \<^verbatim>\<open>pd.merge(l, r, left_on=lon, right_on=ron, how=...)\<close>, \<open>left = True\<close> for
  \<^verbatim>\<open>how='left'\<close> and \<open>False\<close> for \<^verbatim>\<open>how='inner'\<close>; \<^verbatim>\<open>on=k\<close> is \<open>lon = ron = k\<close>. The rows
  of the left frame keep their order, each paired with the rows of the right frame that
  have equal keys (a missing key equals a missing key); under \<^verbatim>\<open>how='left'\<close> a row without
  partner stays, missing in the right columns. A key column with the same label on both
  sides appears once. Any other label that both frames have gets the suffixes \<^verbatim>\<open>_x\<close> and
  \<^verbatim>\<open>_y\<close>.
\<close>

definition sufijo :: "string list \<Rightarrow> string \<Rightarrow> string \<Rightarrow> string" where
  "sufijo solapadas sfx c = (if c \<in> set solapadas then c @ sfx else c)"

definition renombrar :: "string list \<Rightarrow> (string \<Rightarrow> string) \<Rightarrow> row \<Rightarrow> row" where
  "renombrar cs f r = map_of (map (\<lambda>c. (f c, cell_at r c)) cs)"

definition merge_rcols :: "frame \<Rightarrow> string list \<Rightarrow> string list \<Rightarrow> string list" where
  "merge_rcols r lon ron =
     filter (\<lambda>c. c \<notin> set (map fst (filter (\<lambda>(a, b). a = b) (zip lon ron)))) (columns r)"

definition merge_solapadas ::
  "frame \<Rightarrow> frame \<Rightarrow> string list \<Rightarrow> string list \<Rightarrow> string list" where
  "merge_solapadas l r lon ron = filter (\<lambda>c. c \<in> set (merge_rcols r lon ron)) (columns l)"

definition merge_ok ::
  "bool \<Rightarrow> frame \<Rightarrow> frame \<Rightarrow> string list \<Rightarrow> string list \<Rightarrow> frame" where
  "merge_ok left l r lon ron =
     (let rcols = merge_rcols r lon ron;
          fl = sufijo (merge_solapadas l r lon ron) ''_x'';
          fr = sufijo (merge_solapadas l r lon ron) ''_y'';
          vacia = renombrar rcols fr Map.empty
      in \<lparr>columns = map fl (columns l) @ map fr rcols,
          rows = concat (map (\<lambda>a.
             let a' = renombrar (columns l) fl a;
                 ps = filter (\<lambda>b. map (cell_at b) ron = map (cell_at a) lon) (rows r)
             in if ps = [] then (if left then [a' ++ vacia] else [])
                else map (\<lambda>b. a' ++ renombrar rcols fr b) ps) (rows l))\<rparr>)"

definition merge ::
  "bool \<Rightarrow> frame \<Rightarrow> frame \<Rightarrow> string list \<Rightarrow> string list \<Rightarrow> error + frame" where
  "merge left l r lon ron =
     (let faltan_l = filter (\<lambda>c. c \<notin> set (columns l)) lon;
          faltan_r = filter (\<lambda>c. c \<notin> set (columns r)) ron
      in if faltan_l \<noteq> [] then Inl (KeyError [hd faltan_l])
         else if faltan_r \<noteq> [] then Inl (KeyError [hd faltan_r])
         else Inr (merge_ok left l r lon ron))"

text \<open>
  \<^verbatim>\<open>pd.to_datetime\<close>. Timestamps and missing values stay; what pandas makes of any other
  value is a parameter of the model, the parser: \<open>None\<close> when pandas raises,
  \<open>Some None\<close> for \<^verbatim>\<open>NaT\<close>, \<open>Some (Some t)\<close> for the timestamp \<open>t\<close>.
\<close>

type_synonym parser = "cell \<Rightarrow> int option option"

definition to_datetime1 :: "parser \<Rightarrow> cell \<Rightarrow> error + cell" where
  "to_datetime1 parse c =
     (case c of
        NA \<Rightarrow> Inr NA
      | Date t \<Rightarrow> Inr (Date t)
      | _ \<Rightarrow> (case parse c of
                None \<Rightarrow> Inl ValueError
              | Some None \<Rightarrow> Inr NA
              | Some (Some t) \<Rightarrow> Inr (Date t)))"

fun to_datetime :: "parser \<Rightarrow> cell list \<Rightarrow> error + cell list" where
  "to_datetime parse [] = Inr []"
| "to_datetime parse (c # cs) =
     bind (to_datetime1 parse c) (\<lambda>d.
     bind (to_datetime parse cs) (\<lambda>ds. Inr (d # ds)))"

text \<open>
  \<^verbatim>\<open>a < b\<close> on two datetime columns: false where either side is \<^verbatim>\<open>NaT\<close>.
\<close>

fun fecha_menor :: "cell \<Rightarrow> cell \<Rightarrow> bool" where
  "fecha_menor (Date a) (Date b) = (a < b)"
| "fecha_menor _ _ = False"

text \<open>
  \<^verbatim>\<open>(a - b).dt.days.fillna(0).astype(int)\<close> on two datetime columns: the difference in whole
  days, rounded down, and 0 where either side is \<^verbatim>\<open>NaT\<close>.
\<close>

definition ns_por_dia :: int where
  "ns_por_dia = 86400000000000"

fun dias_entre :: "cell \<Rightarrow> cell \<Rightarrow> cell" where
  "dias_entre (Date a) (Date b) = Num (of_int ((a - b) div ns_por_dia))"
| "dias_entre _ _ = Num 0"

text \<open>
  Sorting. \<^verbatim>\<open>sort_values(by=[c1, c2])\<close> is a stable sort on the pair of keys, missing values
  last. It raises \<^verbatim>\<open>TypeError\<close> when a key column mixes strings, numbers and timestamps,
  so the order between cells of different kinds, which the key below also fixes, is never
  seen.
\<close>

fun cell_key :: "cell \<Rightarrow> nat \<times> nat \<times> string \<times> int \<times> real" where
  "cell_key (Str s) = (0, 0, s, 0, 0)"
| "cell_key (Num x) = (0, 1, [], 0, x)"
| "cell_key (Inf b) = (0, 1, [], (if b then 1 else -1), 0)"
| "cell_key (Date t) = (0, 2, [], t, 0)"
| "cell_key NA = (1, 0, [], 0, 0)"

fun clase :: "cell \<Rightarrow> nat option" where
  "clase NA = None"
| "clase (Str s) = Some 0"
| "clase (Num x) = Some 1"
| "clase (Inf b) = Some 1"
| "clase (Date t) = Some 2"

definition homogenea :: "cell list \<Rightarrow> bool" where
  "homogenea cs = (\<forall>a \<in> set cs. \<forall>b \<in> set cs. clase a = None \<or> clase b = None \<or> clase a = clase b)"

definition sort_values :: "frame \<Rightarrow> string \<Rightarrow> string \<Rightarrow> error + frame" where
  "sort_values df c1 c2 =
     bind (getitem df c1) (\<lambda>k1.
     bind (getitem df c2) (\<lambda>k2.
       if \<not> (homogenea k1 \<and> homogenea k2) then Inl TypeError
       else Inr \<lparr>columns = columns df,
                 rows = sort_key (\<lambda>r. (cell_key (cell_at r c1), cell_key (cell_at r c2)))
                          (rows df)\<rparr>))"

text \<open>
  \<^verbatim>\<open>df.groupby(k)[v].shift(-1)\<close>, given the two columns: at each row the value of the next
  row with the same key, missing when there is none or when the key is missing.
\<close>

fun groupby_shift :: "cell list \<Rightarrow> cell list \<Rightarrow> cell list" where
  "groupby_shift (k # ks) (v # vs) =
     (if k = NA then NA
      else case filter (\<lambda>p. fst p = k) (zip ks vs) of [] \<Rightarrow> NA | p # _ \<Rightarrow> snd p)
     # groupby_shift ks vs"
| "groupby_shift _ _ = []"

text \<open>
  Strings. \<^verbatim>\<open>str.lower\<close> is modelled on the letters of ASCII and of the Latin-1 supplement
  (two bytes in UTF-8, the first being \<^verbatim>\<open>0xC3\<close>); every other code point is left as it is.
  White space is ASCII white space. A case-insensitive search for one of several literal
  words is a search for the lower-case word in the lower-case text.
\<close>

definition lower_ascii :: "char \<Rightarrow> char" where
  "lower_ascii c =
     (let n = (of_char c :: nat) in if 65 \<le> n \<and> n \<le> 90 then char_of (n + 32) else c)"

definition lower_latin1 :: "char \<Rightarrow> char" where
  "lower_latin1 c =
     (let n = (of_char c :: nat)
      in if 128 \<le> n \<and> n \<le> 158 \<and> n \<noteq> 151 then char_of (n + 32) else c)"

fun lower :: "string \<Rightarrow> string" where
  "lower [] = []"
| "lower [c] = [lower_ascii c]"
| "lower (c # d # cs) =
     (if c = CHR 0xC3 then c # lower_latin1 d # lower cs
      else lower_ascii c # lower (d # cs))"

definition isspace :: "char \<Rightarrow> bool" where
  "isspace c = (let n = (of_char c :: nat) in (9 \<le> n \<and> n \<le> 13) \<or> (28 \<le> n \<and> n \<le> 32))"

definition strip :: "string \<Rightarrow> string" where
  "strip s = rev (dropWhile isspace (rev (dropWhile isspace s)))"

fun contains_sub :: "string \<Rightarrow> string \<Rightarrow> bool" where
  "contains_sub k [] = (k = [])"
| "contains_sub k (c # cs) = (take (length k) (c # cs) = k \<or> contains_sub k cs)"

text \<open>The \<^verbatim>\<open>.str\<close> methods on one cell of an \<^verbatim>\<open>object\<close> column: no string, no result.\<close>

definition str_lower :: "cell \<Rightarrow> cell" where
  "str_lower c = (case c of Str s \<Rightarrow> Str (lower s) | _ \<Rightarrow> NA)"

definition str_strip :: "cell \<Rightarrow> cell" where
  "str_strip c = (case c of Str s \<Rightarrow> Str (strip s) | _ \<Rightarrow> NA)"

definition str_contains_nocase :: "string list \<Rightarrow> cell \<Rightarrow> bool" where
  "str_contains_nocase palabras c =
     (case c of Str s \<Rightarrow> (\<exists>k \<in> set palabras. contains_sub (lower k) (lower s)) | _ \<Rightarrow> False)"

text \<open>
  \<^verbatim>\<open>df.groupby(k).agg(n1=(c1, 'sum'), n2=(c2, 'sum')).reset_index()\<close>: one row for each key
  that is not missing, with the sums of the two columns over the rows of that key.
\<close>

definition num :: "cell \<Rightarrow> real" where
  "num c = (case c of Num x \<Rightarrow> x | _ \<Rightarrow> 0)"

definition suma :: "cell list \<Rightarrow> cell" where
  "suma cs = Num (sum_list (map num cs))"

definition claves_de_grupo :: "cell list \<Rightarrow> cell list" where
  "claves_de_grupo ks = sort_key cell_key (filter (\<lambda>e. e \<noteq> NA) (unique ks))"

definition fila_de_sumas ::
  "string \<Rightarrow> string \<Rightarrow> string \<Rightarrow> cell list \<Rightarrow> cell list \<Rightarrow> cell list \<Rightarrow> cell \<Rightarrow> row" where
  "fila_de_sumas k n1 n2 ks v1 v2 e =
     [k \<mapsto> e,
      n1 \<mapsto> suma (select (map (\<lambda>x. x = e) ks) v1),
      n2 \<mapsto> suma (select (map (\<lambda>x. x = e) ks) v2)]"

definition groupby_sum ::
  "frame \<Rightarrow> string \<Rightarrow> string \<Rightarrow> string \<Rightarrow> string \<Rightarrow> string \<Rightarrow> error + frame" where
  "groupby_sum df k n1 c1 n2 c2 =
     bind (getitem df k) (\<lambda>ks.
     bind (getitem df c1) (\<lambda>v1.
     bind (getitem df c2) (\<lambda>v2.
       Inr \<lparr>columns = [k, n1, n2],
            rows = map (fila_de_sumas k n1 n2 ks v1 v2) (claves_de_grupo ks)\<rparr>)))"

text \<open>
  \<^verbatim>\<open>df.groupby(k)[v].min().reset_index()\<close> on a datetime column, the second column
  relabelled: for each key that is not missing, the earliest timestamp of its rows, \<^verbatim>\<open>NaT\<close>
  when they have none.
\<close>

definition fechas :: "cell list \<Rightarrow> int list" where
  "fechas cs = concat (map (\<lambda>c. case c of Date t \<Rightarrow> [t] | _ \<Rightarrow> []) cs)"

definition min_fecha :: "cell list \<Rightarrow> cell" where
  "min_fecha cs = (case fechas cs of [] \<Rightarrow> NA | t # ts \<Rightarrow> Date (fold min ts t))"

definition fila_de_minimo :: "string \<Rightarrow> string \<Rightarrow> cell list \<Rightarrow> cell list \<Rightarrow> cell \<Rightarrow> row" where
  "fila_de_minimo k nombre ks vs e =
     [k \<mapsto> e, nombre \<mapsto> min_fecha (select (map (\<lambda>x. x = e) ks) vs)]"

definition groupby_min :: "frame \<Rightarrow> string \<Rightarrow> string \<Rightarrow> string \<Rightarrow> error + frame" where
  "groupby_min df k v nombre =
     bind (getitem df k) (\<lambda>ks.
     bind (getitem df v) (\<lambda>vs.
       Inr \<lparr>columns = [k, nombre],
            rows = map (fila_de_minimo k nombre ks vs) (claves_de_grupo ks)\<rparr>))"

text \<open>\<^verbatim>\<open>fillna(0).astype(int)\<close> on a column of numbers.\<close>

definition fillna0_int :: "cell \<Rightarrow> cell" where
  "fillna0_int c = (case c of NA \<Rightarrow> Num 0 | Num x \<Rightarrow> Num (of_int \<lfloor>x\<rfloor>) | _ \<Rightarrow> c)"

text \<open>
  Float arithmetic on cells, as numpy does it: a division by zero gives an infinity or the
  missing value, never an exception (the sign of a zero is not represented: a zero divisor
  counts as \<^verbatim>\<open>+0.0\<close>). A string or a timestamp among the operands raises \<^verbatim>\<open>TypeError\<close>.
\<close>

fun truediv :: "cell \<Rightarrow> cell \<Rightarrow> error + cell" where
  "truediv (Str s) _ = Inl TypeError"
| "truediv _ (Str s) = Inl TypeError"
| "truediv (Date t) _ = Inl TypeError"
| "truediv _ (Date t) = Inl TypeError"
| "truediv NA _ = Inr NA"
| "truediv _ NA = Inr NA"
| "truediv (Num a) (Num b) =
     Inr (if b \<noteq> 0 then Num (a / b)
          else if 0 < a then Inf True else if a < 0 then Inf False else NA)"
| "truediv (Num a) (Inf s) = Inr (Num 0)"
| "truediv (Inf s) (Num b) = Inr (Inf (if b < 0 then \<not> s else s))"
| "truediv (Inf s) (Inf t) = Inr NA"





section \<open>Target Labeler\<close>

definition matricula_oogg :: string where
  "matricula_oogg = ''Matr'' @ [CHR 0xC3, CHR 0xAD] @ ''cula OOGG''"

text \<open>
  \<^verbatim>\<open>x in array\<close> on a numpy array is \<^verbatim>\<open>(array == x).any()\<close>; a missing value is equal
  to nothing, itself included.
\<close>

definition np_contains :: "cell list \<Rightarrow> cell \<Rightarrow> bool" where
  "np_contains arr x = (x \<noteq> NA \<and> x \<in> set arr)"

text \<open>
  \<^verbatim>\<open>crear_target\<close> (utils.py, lines 51-77). The two \<^verbatim>\<open>print\<close> statements divide Python
  integers, which raises \<^verbatim>\<open>ZeroDivisionError\<close> on a zero divisor; nothing else of the
  printed text is modelled. The frame returned is the caller's frame, with the column
  \<^verbatim>\<open>target\<close> written into it.
\<close>

definition crear_target :: "frame \<Rightarrow> frame \<Rightarrow> error + frame" where
  "crear_target oportunidad historial_etapas =
     bind (getitem historial_etapas ''PL_Etapa__c'') (\<lambda>etapa.
     bind (getitem historial_etapas ''PL_Subetapa__c'') (\<lambda>subetapa.
     bind (getitem historial_etapas ''LK_Oportunidad__c'') (\<lambda>lk.
       let matricula_formalizada =
             unique (select (map (\<lambda>(e, s). e = Str matricula_oogg \<and> s = Str ''Formalizada'')
                               (zip etapa subetapa)) lk)
       in if length (unique lk) = 0 then Inl ZeroDivisionError
          else
            let desmatriculado =
                  unique (select (map (\<lambda>s. s = Str ''Desmatriculado'') subetapa) lk)
            in if length matricula_formalizada = 0 then Inl ZeroDivisionError
               else
                 bind (getitem oportunidad ''ID'') (\<lambda>ids.
                   Inr (setitem oportunidad ''target''
                          (map (\<lambda>x. if np_contains matricula_formalizada x
                                        \<and> \<not> np_contains desmatriculado x
                                     then Num 1 else Num 0) ids))))))"

text \<open>
  \<^verbatim>\<open>crear_target_auditado\<close> (utils.py, lines 80-124). The audit only prints; its one
  division has a numpy integer as dividend and gives \<^verbatim>\<open>nan\<close> on a zero divisor instead of
  raising. \<^verbatim>\<open>Series.isin\<close> matches a missing value with a missing value.
\<close>

definition crear_target_auditado :: "frame \<Rightarrow> frame \<Rightarrow> error + frame" where
  "crear_target_auditado oportunidad historial_etapas =
     bind (getitem oportunidad ''ID'') (\<lambda>ids0.
     bind (getitem historial_etapas ''LK_Oportunidad__c'') (\<lambda>lk.
     bind (getitem historial_etapas ''PL_Etapa__c'') (\<lambda>etapa.
     bind (getitem historial_etapas ''PL_Subetapa__c'') (\<lambda>subetapa.
       let matricula_formalizada =
             set (unique (select (map (\<lambda>(e, s). e = Str matricula_oogg \<and> s = Str ''Formalizada'')
                                    (zip etapa subetapa)) lk));
           desmatriculado =
             set (unique (select (map (\<lambda>s. s = Str ''Desmatriculado'') subetapa) lk));
           ids_target_1 = matricula_formalizada - desmatriculado
       in Inr (setitem oportunidad ''target''
                 (map (\<lambda>x. if x \<in> ids_target_1 then Num 1 else Num 0) ids0))))))"

text \<open>The two conditions of the label, read off the stage history.\<close>

definition formalizada :: "frame \<Rightarrow> cell \<Rightarrow> bool" where
  "formalizada historial e =
     (\<exists>ev \<in> set (rows historial).
        cell_at ev ''LK_Oportunidad__c'' = e
        \<and> cell_at ev ''PL_Etapa__c'' = Str matricula_oogg
        \<and> cell_at ev ''PL_Subetapa__c'' = Str ''Formalizada'')"

definition desmatriculado_alguna_vez :: "frame \<Rightarrow> cell \<Rightarrow> bool" where
  "desmatriculado_alguna_vez historial e =
     (\<exists>ev \<in> set (rows historial).
        cell_at ev ''LK_Oportunidad__c'' = e
        \<and> cell_at ev ''PL_Subetapa__c'' = Str ''Desmatriculado'')"

definition en_historial :: "frame \<Rightarrow> cell \<Rightarrow> bool" where
  "en_historial historial e =
     (\<exists>ev \<in> set (rows historial). cell_at ev ''LK_Oportunidad__c'' = e)"

section \<open>Temporal Stage Calculator\<close>

text \<open>
  \<^verbatim>\<open>calcular_tiempos_etapas\<close> (utils.py, lines 128-154). The first two assignments write
  into the frame the caller passed; the sort then makes a new frame, and the name
  \<^verbatim>\<open>historial_etapas\<close> means the new frame from there on. The model returns both: the
  caller's frame as the call leaves it, and the frame returned.
\<close>

definition calcular_tiempos_etapas :: "parser \<Rightarrow> frame \<Rightarrow> error + frame \<times> frame" where
  "calcular_tiempos_etapas parse historial_etapas =
     bind (getitem historial_etapas ''CreatedDate'') (\<lambda>c.
     bind (to_datetime parse c) (\<lambda>creado.
     let h1 = setitem historial_etapas ''CreatedDate'' creado in
     bind (getitem h1 ''Fecha_fin_etapa__c'') (\<lambda>f.
     bind (to_datetime parse f) (\<lambda>fin.
     let h2 = setitem h1 ''Fecha_fin_etapa__c'' fin in
     bind (sort_values h2 ''LK_Oportunidad__c'' ''CreatedDate'') (\<lambda>h3.
     bind (getitem h3 ''Fecha_fin_etapa__c'') (\<lambda>fin3.
     bind (getitem h3 ''CreatedDate'') (\<lambda>creado3.
     let h4 = setitem h3 ''tiempo_etapa_dias''
                (map (\<lambda>(a, b). dias_entre a b) (zip fin3 creado3)) in
     bind (getitem h4 ''LK_Oportunidad__c'') (\<lambda>lk4.
     bind (getitem h4 ''CreatedDate'') (\<lambda>creado4.
     let fecha_siguiente = groupby_shift lk4 creado4;
         h5 = setitem h4 ''tiempo_entre_etapas_dias''
                (map (\<lambda>(a, b). dias_entre a b) (zip fecha_siguiente creado4))
     in Inr (h2, h5))))))))))"

section \<open>Progressive Activity Aggregator\<close>

definition keywords_excluir :: "string list" where
  "keywords_excluir =
     [''mail'', ''email'', ''whatsapp'', ''masivo'',
      ''comunicaci'' @ [CHR 0xC3, CHR 0xB3] @ ''n'', ''env'' @ [CHR 0xC3, CHR 0xAD] @ ''o'']"

definition col_tipo_act :: string where
  "col_tipo_act = ''Campaign.LK_tipoActividadPromocion__r.Name''"

text \<open>The filter of lines 223-227, on the type label of one activity.\<close>

definition actividad_limpia :: "cell \<Rightarrow> bool" where
  "actividad_limpia t =
     (t \<noteq> NA \<and> str_strip t \<noteq> Str [] \<and> \<not> str_contains_nocase keywords_excluir t)"

definition es_asiste :: "cell \<Rightarrow> cell" where
  "es_asiste s = (if s = Str ''asiste'' then Num 1 else Num 0)"

definition es_solicitado :: "cell \<Rightarrow> cell" where
  "es_solicitado s =
     (if s \<in> set [Str ''solicitado'', Str ''solicita asistir''] then Num 1 else Num 0)"

text \<open>
  \<^verbatim>\<open>integrar_actividades_progresivo_por_curso\<close> (utils.py, lines 213-276). The activities
  are copied before columns are added to them; the column \<^verbatim>\<open>MasterDate\<close> is written into
  the frame the caller passed, and \<^verbatim>\<open>reset_index\<close> then makes a new frame. The model returns
  the caller's master frame as the call leaves it, and the frame returned.
\<close>

definition integrar_actividades_progresivo_por_curso ::
  "parser \<Rightarrow> frame \<Rightarrow> frame \<Rightarrow> error + frame \<times> frame" where
  "integrar_actividades_progresivo_por_curso parse df_master df_actividades =
     bind (getitem df_actividades col_tipo_act) (\<lambda>tipo.
     let act0 = filtrar df_actividades (map actividad_limpia tipo) in
     bind (getitem act0 ''CreatedDate'') (\<lambda>ca.
     bind (to_datetime parse ca) (\<lambda>activity_date.
     let act1 = setitem act0 ''ActivityDate'' activity_date in
     bind (getitem df_master ''CreatedDate'') (\<lambda>cm.
     bind (to_datetime parse cm) (\<lambda>master_date.
     let master1 = setitem df_master ''MasterDate'' master_date in
     bind (getitem act1 ''Estado_del_miembro__c'') (\<lambda>estado.
     let df_act_clean = setitem act1 ''status_lower'' (map str_lower estado) in
     bind (reset_index master1) (\<lambda>con_indice.
     let master2 = rename con_indice ''index'' ''fila_id_unico'' in
     bind (getitems master2
             [''fila_id_unico'', ''ID18__PC'', ''MasterDate'', ''PL_CURSO_ACADEMICO'']) (\<lambda>izq.
     bind (getitems df_act_clean
             [''ContactId'', ''ActivityDate'', ''status_lower'',
              ''Campaign.AcademicCourse__c'']) (\<lambda>der.
     bind (merge False izq der [''ID18__PC'', ''PL_CURSO_ACADEMICO'']
             [''ContactId'', ''Campaign.AcademicCourse__c'']) (\<lambda>joined0.
     bind (getitem joined0 ''ActivityDate'') (\<lambda>ad.
     bind (getitem joined0 ''MasterDate'') (\<lambda>md.
     let joined1 = filtrar joined0 (map (\<lambda>(a, m). fecha_menor a m) (zip ad md)) in
     bind (getitem joined1 ''status_lower'') (\<lambda>sl1.
     let joined2 = setitem joined1 ''es_asiste'' (map es_asiste sl1) in
     bind (getitem joined2 ''status_lower'') (\<lambda>sl2.
     let df_joined = setitem joined2 ''es_solicitado'' (map es_solicitado sl2) in
     bind (groupby_sum df_joined ''fila_id_unico''
             ''num_asistencias_acum'' ''es_asiste''
             ''num_solicitudes_acum'' ''es_solicitado'') (\<lambda>resumen.
     bind (merge True master2 resumen [''fila_id_unico''] [''fila_id_unico'']) (\<lambda>final0.
     bind (getitems final0 [''num_asistencias_acum'', ''num_solicitudes_acum'']) (\<lambda>contadores.
     bind (getitem contadores ''num_asistencias_acum'') (\<lambda>na.
     bind (getitem contadores ''num_solicitudes_acum'') (\<lambda>ns.
     let final1 = setitem final0 ''num_asistencias_acum'' (map fillna0_int na);
         df_final_v3 = setitem final1 ''num_solicitudes_acum'' (map fillna0_int ns) in
     bind (drop_columns df_final_v3 [''fila_id_unico'', ''MasterDate'']) (\<lambda>resultado.
       Inr (master1, resultado)))))))))))))))))))))"

section \<open>Leakage Guard\<close>

definition pruebas_de_admision :: string where
  "pruebas_de_admision = ''Pruebas de admisi'' @ [CHR 0xC3, CHR 0xB3] @ ''n''"

definition matricula_admision :: string where
  "matricula_admision =
     ''Matr'' @ [CHR 0xC3, CHR 0xAD] @ ''cula admisi'' @ [CHR 0xC3, CHR 0xB3] @ ''n''"

definition pago_minimo :: string where
  "pago_minimo = ''Pago M'' @ [CHR 0xC3, CHR 0xAD] @ ''nimo''"

definition cols_academicas :: "string list" where
  "cols_academicas =
     [''NU_NOTA_MEDIA_ADMISION'', ''CH_PRUEBAS_CALIFICADAS'',
      ''NU_RESULTADO_ADMISION_PUNTOS'', ''PL_RESOLUCION_DEFINITIVA'']"

definition cols_economicas :: "string list" where
  "cols_economicas =
     [''MINIMUMPAYMENTPAYED'', ''PAID_AMOUNT'', ''PAID_PERCENT'', ''CH_PAGO_SUPERIOR'',
      ''CH_MATRICULA_SUJETA_BECA'', ''CH_AYUDA_FINANCIACION'', ''CU_IMPORTE_TOTAL'']"

text \<open>The masks of lines 197 and 201, on the milestone and the timestamp of one row.\<close>

definition antes_del_hito :: "cell \<Rightarrow> cell \<Rightarrow> bool" where
  "antes_del_hito hito creado = (hito = NA \<or> fecha_menor creado hito)"

text \<open>
  \<^verbatim>\<open>limpiar_historial_por_hitos\<close> (utils.py, lines 158-207). The first assignment writes
  into the caller's history frame. The model returns that frame as the call leaves it, and
  the frame returned.
\<close>

definition limpiar_historial_por_hitos ::
  "parser \<Rightarrow> frame \<Rightarrow> frame \<Rightarrow> error + frame \<times> frame" where
  "limpiar_historial_por_hitos parse df_historial df_principal =
     bind (getitem df_historial ''CreatedDate'') (\<lambda>c.
     bind (to_datetime parse c) (\<lambda>creado.
     let historial = setitem df_historial ''CreatedDate'' creado in
     bind (getitem historial ''PL_Etapa__c'') (\<lambda>etapa.
     bind (getitem historial ''PL_Subetapa__c'') (\<lambda>subetapa.
     bind (groupby_min
             (filtrar historial
                (map (\<lambda>(e, s). e = Str pruebas_de_admision \<and> s = Str ''Pruebas calificadas'')
                   (zip etapa subetapa)))
             ''LK_Oportunidad__c'' ''CreatedDate'' ''fecha_pruebas_calificadas'') (\<lambda>hito_acad.
     bind (groupby_min
             (filtrar historial
                (map (\<lambda>(e, s). e = Str matricula_admision \<and> s = Str pago_minimo)
                   (zip etapa subetapa)))
             ''LK_Oportunidad__c'' ''CreatedDate'' ''fecha_matricula_iniciada'') (\<lambda>hito_econ.
     bind (merge True historial hito_acad [''LK_Oportunidad__c''] [''LK_Oportunidad__c''])
       (\<lambda>merge1.
     bind (merge True merge1 hito_econ [''LK_Oportunidad__c''] [''LK_Oportunidad__c''])
       (\<lambda>df_merge.
     bind (merge True df_merge df_principal [''LK_Oportunidad__c''] [''ID'']) (\<lambda>final0.
     bind (getitem final0 ''fecha_pruebas_calificadas'') (\<lambda>hitos_a.
     bind (getitem final0 ''CreatedDate'') (\<lambda>creado_a.
     let mask_acad = map (\<lambda>(h, c). antes_del_hito h c) (zip hitos_a creado_a);
         final1 = loc_set_nan final0 mask_acad cols_academicas in
     bind (getitem final1 ''fecha_matricula_iniciada'') (\<lambda>hitos_e.
     bind (getitem final1 ''CreatedDate'') (\<lambda>creado_e.
     let mask_econ = map (\<lambda>(h, c). antes_del_hito h c) (zip hitos_e creado_e);
         df_final = loc_set_nan final1 mask_econ cols_economicas
     in Inr (historial, df_final))))))))))))))"

text \<open>
  The stage-based guard of the script (01\_limpieza\_datasets.py, lines 152-157), as a
  function of the assembled frame.
\<close>

definition etapas_pago :: "string list" where
  "etapas_pago =
     [''Solicitud'', ''Pruebas'',
      ''Admisi'' @ [CHR 0xC3, CHR 0xB3] @ ''n acad'' @ [CHR 0xC3, CHR 0xA9] @ ''mica'']"

definition vars_pago_todas :: "string list" where
  "vars_pago_todas =
     [''PAID_AMOUNT'', ''MINIMUMPAYMENTPAYED'', ''CU_precioAplicado_def__c'',
      ''PORCENTAJE_PAGADO_FINAL'']"

definition mask_futuro :: "string list \<Rightarrow> row \<Rightarrow> bool" where
  "mask_futuro vars_pago r =
     (cell_at r ''PL_Etapa__c'' \<in> set (map Str etapas_pago)
      \<and> (\<exists>v \<in> set vars_pago. cell_at r v \<noteq> NA))"

definition control_leakage :: "frame \<Rightarrow> error + frame" where
  "control_leakage df_definitivo =
     (let vars_pago = filter (\<lambda>v. v \<in> set (columns df_definitivo)) vars_pago_todas in
      bind (getitem df_definitivo ''PL_Etapa__c'') (\<lambda>etapa.
      bind (getitems df_definitivo vars_pago) (\<lambda>pagos.
        Inr (loc_set_nan df_definitivo
               (map (\<lambda>(e, p). e \<in> set (map Str etapas_pago)
                               \<and> (\<exists>v \<in> set vars_pago. cell_at p v \<noteq> NA))
                  (zip etapa (rows pagos)))
               vars_pago))))"

section \<open>Dataset Assembler: the ratio of the price paid\<close>


section \<open>Notions the statements use\<close>

text \<open>The payment fields the guard finds in a frame (line 154 of the script).\<close>

definition vars_pago_de :: "frame \<Rightarrow> string list" where
  "vars_pago_de df = filter (\<lambda>v. v \<in> set (columns df)) vars_pago_todas"

text \<open>A cell that float arithmetic accepts: a number, an infinity or the missing value.\<close>

fun numerica :: "cell \<Rightarrow> bool" where
  "numerica (Str s) = False"
| "numerica (Date t) = False"
| "numerica c = True"

text \<open>The entity key, the start and the end of a stage-history event, and the sort key.\<close>

definition entidad :: "row \<Rightarrow> cell" where
  "entidad r = cell_at r ''LK_Oportunidad__c''"

definition inicio :: "row \<Rightarrow> cell" where
  "inicio r = cell_at r ''CreatedDate''"

definition final :: "row \<Rightarrow> cell" where
  "final r = cell_at r ''Fecha_fin_etapa__c''"

definition clave_orden :: "row \<Rightarrow> (nat \<times> nat \<times> string \<times> int \<times> real) \<times> (nat \<times> nat \<times> string \<times> int \<times> real)" where
  "clave_orden r = (cell_key (entidad r), cell_key (inicio r))"

text \<open>A timestamp or the missing timestamp.\<close>

fun es_fecha :: "cell \<Rightarrow> bool" where
  "es_fecha NA = True"
| "es_fecha (Date t) = True"
| "es_fecha c = False"

text \<open>
  The timestamp \<^verbatim>\<open>pd.to_datetime\<close> gives for a cell, and whether it gives one at all.
\<close>

definition fecha_de :: "parser \<Rightarrow> cell \<Rightarrow> cell" where
  "fecha_de parse c = (case to_datetime1 parse c of Inl e \<Rightarrow> NA | Inr d \<Rightarrow> d)"

definition convertible :: "parser \<Rightarrow> cell \<Rightarrow> bool" where
  "convertible parse c = (case to_datetime1 parse c of Inl e \<Rightarrow> False | Inr d \<Rightarrow> True)"

text \<open>
  What the aggregator counts for a master row \<open>r\<close>: the activities with a clean type
  label, with the contact and the academic course of \<open>r\<close>, and with a timestamp strictly
  before that of \<open>r\<close>; among them those whose status is \<^verbatim>\<open>asiste\<close>, and those whose
  status is \<^verbatim>\<open>solicitado\<close> or \<^verbatim>\<open>solicita asistir\<close>, in any letter case.
\<close>

definition anterior :: "parser \<Rightarrow> row \<Rightarrow> row \<Rightarrow> bool" where
  "anterior parse r b =
     fecha_menor (fecha_de parse (cell_at b ''CreatedDate''))
                 (fecha_de parse (cell_at r ''CreatedDate''))"

definition actividad_previa :: "parser \<Rightarrow> row \<Rightarrow> row \<Rightarrow> bool" where
  "actividad_previa parse r b =
     (actividad_limpia (cell_at b col_tipo_act)
      \<and> cell_at b ''ContactId'' = cell_at r ''ID18__PC''
      \<and> cell_at b ''Campaign.AcademicCourse__c'' = cell_at r ''PL_CURSO_ACADEMICO''
      \<and> anterior parse r b)"

definition estado_es :: "string list \<Rightarrow> row \<Rightarrow> bool" where
  "estado_es estados b =
     (case cell_at b ''Estado_del_miembro__c'' of Str s \<Rightarrow> lower s \<in> set estados | _ \<Rightarrow> False)"

definition asistencias_previas :: "parser \<Rightarrow> row \<Rightarrow> row list \<Rightarrow> nat" where
  "asistencias_previas parse r acts =
     length (filter (\<lambda>b. actividad_previa parse r b \<and> estado_es [''asiste''] b) acts)"

definition solicitudes_previas :: "parser \<Rightarrow> row \<Rightarrow> row list \<Rightarrow> nat" where
  "solicitudes_previas parse r acts =
     length (filter (\<lambda>b. actividad_previa parse r b
                           \<and> estado_es [''solicitado'', ''solicita asistir''] b) acts)"

text \<open>The columns the aggregator reads, and the labels it uses for its own columns.\<close>

definition columnas_master :: "string list" where
  "columnas_master = [''CreatedDate'', ''ID18__PC'', ''PL_CURSO_ACADEMICO'']"

definition columnas_actividades :: "string list" where
  "columnas_actividades =
     [col_tipo_act, ''CreatedDate'', ''Estado_del_miembro__c'', ''ContactId'',
      ''Campaign.AcademicCourse__c'']"

definition nombres_libres :: "frame \<Rightarrow> bool" where
  "nombres_libres df =
     (\<forall>c \<in> set [''index'', ''fila_id_unico'', ''num_asistencias_acum'',
                  ''num_solicitudes_acum'']. c \<notin> set (columns df))"

definition fechas_convertibles :: "parser \<Rightarrow> frame \<Rightarrow> bool" where
  "fechas_convertibles parse df =
     (\<forall>r \<in> set (rows df). convertible parse (cell_at r ''CreatedDate''))"

definition actividades_convertibles :: "parser \<Rightarrow> frame \<Rightarrow> bool" where
  "actividades_convertibles parse df =
     (\<forall>b \<in> set (rows df). actividad_limpia (cell_at b col_tipo_act)
         \<longrightarrow> convertible parse (cell_at b ''CreatedDate''))"

text \<open>A column the aggregator reads and does not find.\<close>

definition falta :: "frame \<Rightarrow> frame \<Rightarrow> string \<Rightarrow> bool" where
  "falta m a c =
     ((c \<in> set columnas_actividades \<and> c \<notin> set (columns a))
      \<or> (c \<in> set columnas_master \<and> c \<notin> set (columns m)))"

text \<open>
  The milestone of an entity in a list of events: the earliest timestamp among its events
  with the given stage and sub-stage, missing when it has no such event with a timestamp.
\<close>

definition en_etapa :: "string \<Rightarrow> string \<Rightarrow> cell \<Rightarrow> row \<Rightarrow> bool" where
  "en_etapa etapa subetapa e r =
     (entidad r = e \<and> cell_at r ''PL_Etapa__c'' = Str etapa
      \<and> cell_at r ''PL_Subetapa__c'' = Str subetapa)"

definition hito :: "row list \<Rightarrow> string \<Rightarrow> string \<Rightarrow> cell \<Rightarrow> cell" where
  "hito eventos etapa subetapa e =
     (let ts = fechas (map inicio (filter (en_etapa etapa subetapa e) eventos))
      in if ts = [] then NA else Date (Min (set ts)))"

section \<open>Example tables\<close>

definition ej_oportunidad :: frame where
  "ej_oportunidad =
     \<lparr>columns = [''ID''],
      rows = [[''ID'' \<mapsto> Str ''a''], [''ID'' \<mapsto> Str ''b''], [''ID'' \<mapsto> Str ''c'']]\<rparr>"

definition evento :: "cell \<Rightarrow> cell \<Rightarrow> cell \<Rightarrow> cell \<Rightarrow> cell \<Rightarrow> row" where
  "evento lk etapa subetapa creado fin =
     [''LK_Oportunidad__c'' \<mapsto> lk, ''PL_Etapa__c'' \<mapsto> etapa, ''PL_Subetapa__c'' \<mapsto> subetapa,
      ''CreatedDate'' \<mapsto> creado, ''Fecha_fin_etapa__c'' \<mapsto> fin]"

definition columnas_historial :: "string list" where
  "columnas_historial =
     [''LK_Oportunidad__c'', ''PL_Etapa__c'', ''PL_Subetapa__c'', ''CreatedDate'',
      ''Fecha_fin_etapa__c'']"

definition dia :: "int \<Rightarrow> cell" where
  "dia n = Date (n * ns_por_dia)"

text \<open>Opportunity a enrols, b enrols and leaves, c has no history.\<close>

definition ej_historial :: frame where
  "ej_historial =
     \<lparr>columns = columnas_historial,
      rows = [evento (Str ''b'') (Str ''Baja'') (Str ''Desmatriculado'') (dia 30) NA,
              evento (Str ''a'') (Str matricula_oogg) (Str ''Formalizada'') (dia 10) (dia 20),
              evento (Str ''b'') (Str matricula_oogg) (Str ''Formalizada'') (dia 10) (dia 20)]\<rparr>"

text \<open>A history in which nobody enrols.\<close>

definition ej_historial_sin_matricula :: frame where
  "ej_historial_sin_matricula =
     \<lparr>columns = columnas_historial,
      rows = [evento (Str ''a'') (Str ''Solicitud'') (Str ''Iniciada'') (dia 1) (dia 2)]\<rparr>"

definition fila_precio :: "cell \<Rightarrow> cell \<Rightarrow> cell \<Rightarrow> cell \<Rightarrow> row" where
  "fila_precio etapa pagado aplicado ordinario =
     [''PL_Etapa__c'' \<mapsto> etapa, ''PAID_AMOUNT'' \<mapsto> pagado,
      ''CU_precioAplicado_def__c'' \<mapsto> aplicado, ''CU_precioOrdinario_def__c'' \<mapsto> ordinario]"

definition ej_definitivo :: frame where
  "ej_definitivo =
     \<lparr>columns = [''PL_Etapa__c'', ''PAID_AMOUNT'', ''CU_precioAplicado_def__c'',
                 ''CU_precioOrdinario_def__c''],
      rows = [fila_precio (Str ''Solicitud'') (Num 100) NA NA,
              fila_precio (Str matricula_oogg) (Num 100) (Num 50) (Num 200),
              fila_precio (Str ''Pruebas'') NA (Num 50) (Num 0)]\<rparr>"

text \<open>A parser that accepts nothing: every date of the examples is a timestamp already.\<close>

definition sin_parser :: parser where
  "sin_parser c = None"

text \<open>
  Three observations and eight activities. Of the activities of contact A in course C, the
  first (attended, at time 5) and the third (requested, at time 5) count for the
  observation at time 10; the others are too late, of the excluded kind, blank or without
  type label, or of another course.
\<close>

definition fila_master :: "cell \<Rightarrow> cell \<Rightarrow> cell \<Rightarrow> row" where
  "fila_master contacto curso creado =
     [''ID18__PC'' \<mapsto> contacto, ''PL_CURSO_ACADEMICO'' \<mapsto> curso, ''CreatedDate'' \<mapsto> creado]"

definition ej_master :: frame where
  "ej_master =
     \<lparr>columns = [''ID18__PC'', ''PL_CURSO_ACADEMICO'', ''CreatedDate''],
      rows = [fila_master (Str ''A'') (Str ''C'') (Date 10),
              fila_master (Str ''A'') (Str ''C'') (Date 3),
              fila_master (Str ''B'') (Str ''C'') (Date 10)]\<rparr>"

definition actividad :: "cell \<Rightarrow> cell \<Rightarrow> cell \<Rightarrow> cell \<Rightarrow> cell \<Rightarrow> row" where
  "actividad contacto curso creado estado tipo =
     [''ContactId'' \<mapsto> contacto, ''Campaign.AcademicCourse__c'' \<mapsto> curso,
      ''CreatedDate'' \<mapsto> creado, ''Estado_del_miembro__c'' \<mapsto> estado, col_tipo_act \<mapsto> tipo]"

definition ej_actividades_previas :: "row list" where
  "ej_actividades_previas =
     [actividad (Str ''A'') (Str ''C'') (Date 5) (Str ''Asiste'') (Str ''Open Day''),
      actividad (Str ''A'') (Str ''C'') (Date 5) (Str ''Solicitado'') (Str ''Feria''),
      actividad (Str ''A'') (Str ''C'') (Date 5) (Str ''asiste'') (Str ''Email MASIVO''),
      actividad (Str ''A'') (Str ''D'') (Date 5) (Str ''asiste'') (Str ''Open Day''),
      actividad (Str ''A'') (Str ''C'') (Date 5) (Str ''asiste'') (Str ''  ''),
      actividad (Str ''A'') (Str ''C'') (Date 5) (Str ''asiste'') NA]"

definition ej_actividades :: frame where
  "ej_actividades =
     \<lparr>columns = columnas_actividades,
      rows = ej_actividades_previas
             @ [actividad (Str ''A'') (Str ''C'') (Date 15) (Str ''asiste'') (Str ''Open Day''),
                actividad (Str ''A'') (Str ''C'') (Date 10) (Str ''asiste'') (Str ''Open Day'')]\<rparr>"

definition ej_actividades_antes :: frame where
  "ej_actividades_antes = \<lparr>columns = columnas_actividades, rows = ej_actividades_previas\<rparr>"

definition ej_actividades_vacia :: frame where
  "ej_actividades_vacia = \<lparr>columns = columnas_actividades, rows = []\<rparr>"




text \<open>
  Opportunity a has its admission tests marked at day 10 and pays the minimum at day 20;
  opportunity b reaches neither milestone.
\<close>

definition ej_hitos :: frame where
  "ej_hitos =
     \<lparr>columns = columnas_historial,
      rows = [evento (Str ''a'') (Str ''Solicitud'') (Str ''Iniciada'') (dia 5) NA,
              evento (Str ''a'') (Str pruebas_de_admision) (Str ''Pruebas calificadas'') (dia 10) NA,
              evento (Str ''a'') (Str matricula_admision) (Str pago_minimo) (dia 20) NA,
              evento (Str ''b'') (Str ''Solicitud'') (Str ''Iniciada'') (dia 5) NA]\<rparr>"

definition ej_principal :: frame where
  "ej_principal =
     \<lparr>columns = [''ID'', ''NU_NOTA_MEDIA_ADMISION'', ''PAID_AMOUNT''],
      rows = [[''ID'' \<mapsto> Str ''a'', ''NU_NOTA_MEDIA_ADMISION'' \<mapsto> Num 7, ''PAID_AMOUNT'' \<mapsto> Num 100],
              [''ID'' \<mapsto> Str ''b'', ''NU_NOTA_MEDIA_ADMISION'' \<mapsto> Num 6, ''PAID_AMOUNT'' \<mapsto> Num 50]]\<rparr>"
section \<open>Basic facts about frames\<close>

lemma bind_Inr_iff: "bind m f = Inr y \<longleftrightarrow> (\<exists>x. m = Inr x \<and> f x = Inr y)"
  by (cases m) (simp_all add: bind_def)

lemma bind_Inr [simp]: "bind (Inr x) f = f x"
  by (simp add: bind_def)

lemma bind_Inl [simp]: "bind (Inl e) f = Inl e"
  by (simp add: bind_def)

lemma getitem_Inr_iff:
  "getitem df c = Inr vs \<longleftrightarrow> c \<in> set (columns df) \<and> vs = map (\<lambda>r. cell_at r c) (rows df)"
  by (auto simp: getitem_def)

lemma set_unique [simp]: "set (unique xs) = set xs"
  by (simp add: unique_def)

lemma unique_Nil_iff [simp]: "unique xs = [] \<longleftrightarrow> xs = []"
  by (simp add: unique_def)

lemma set_select_map:
  "set (select (map p xs) (map f xs)) = {f x |x. x \<in> set xs \<and> p x}"
proof (induction xs)
  case Nil
  show ?case by (simp add: select_def)
next
  case (Cons x xs)
  then have "set (select (map p (x # xs)) (map f (x # xs)))
             = (if p x then {f x} else {}) \<union> {f y |y. y \<in> set xs \<and> p y}"
    by (simp add: select_def)
  then show ?case by auto
qed

lemma rows_setitem:
  "length vs = length (rows df) \<Longrightarrow> i < length (rows df) \<Longrightarrow>
   rows (setitem df c vs) ! i = (rows df ! i)(c \<mapsto> vs ! i)"
  by (simp add: setitem_def)

lemma length_rows_setitem:
  "length vs = length (rows df) \<Longrightarrow> length (rows (setitem df c vs)) = length (rows df)"
  by (simp add: setitem_def)

lemma cell_at_upd [simp]: "cell_at (r(c \<mapsto> v)) c' = (if c' = c then v else cell_at r c')"
  by (simp add: cell_at_def)

lemma set_columns_setitem:
  "set (columns (setitem df c vs)) = insert c (set (columns df))"
  by (auto simp: setitem_def)

lemma anular_Nil [simp]: "anular [] r = r"
  by (simp add: anular_def)

lemma cell_at_anular: "cell_at (anular cs r) c = (if c \<in> set cs then NA else cell_at r c)"
  by (simp add: anular_def cell_at_def)

lemma cell_at_restrict: "c \<in> A \<Longrightarrow> cell_at (r |` A) c = cell_at r c"
  by (simp add: cell_at_def)



lemma columns_loc_set_nan:
  "columns (loc_set_nan df msk cols) =
     columns df @ filter (\<lambda>c. c \<notin> set (columns df)) (remdups cols)"
  by (simp add: loc_set_nan_def Let_def)

section \<open>Target Labeler: the label\<close>

lemma set_formalizadas:
  assumes "getitem h ''PL_Etapa__c'' = Inr etapa" "getitem h ''PL_Subetapa__c'' = Inr subetapa"
    "getitem h ''LK_Oportunidad__c'' = Inr lk"
  shows "set (select (map (\<lambda>(e, s). e = Str matricula_oogg \<and> s = Str ''Formalizada'')
       (zip etapa subetapa)) lk) = {e. formalizada h e}"
proof -
  let ?p = "\<lambda>r. cell_at r ''PL_Etapa__c'' = Str matricula_oogg
                \<and> cell_at r ''PL_Subetapa__c'' = Str ''Formalizada''"
  let ?f = "\<lambda>r. cell_at r ''LK_Oportunidad__c''"
  have "map (\<lambda>(e, s). e = Str matricula_oogg \<and> s = Str ''Formalizada'') (zip etapa subetapa)
        = map ?p (rows h)"
    using assms(1,2) by (simp add: getitem_Inr_iff zip_map_map zip_same_conv_map)
  moreover have "lk = map ?f (rows h)"
    using assms(3) by (simp add: getitem_Inr_iff)
  ultimately have "set (select (map (\<lambda>(e, s). e = Str matricula_oogg \<and> s = Str ''Formalizada'')
       (zip etapa subetapa)) lk) = {?f x |x. x \<in> set (rows h) \<and> ?p x}"
    by (simp only: set_select_map)
  also have "\<dots> = {e. formalizada h e}"
    by (auto simp: formalizada_def)
  finally show ?thesis .
qed

lemma set_desmatriculados:
  assumes "getitem h ''PL_Subetapa__c'' = Inr subetapa"
    "getitem h ''LK_Oportunidad__c'' = Inr lk"
  shows "set (select (map (\<lambda>s. s = Str ''Desmatriculado'') subetapa) lk)
         = {e. desmatriculado_alguna_vez h e}"
proof -
  let ?p = "\<lambda>r. cell_at r ''PL_Subetapa__c'' = Str ''Desmatriculado''"
  let ?f = "\<lambda>r. cell_at r ''LK_Oportunidad__c''"
  have "map (\<lambda>s. s = Str ''Desmatriculado'') subetapa = map ?p (rows h)"
    using assms(1) by (simp add: getitem_Inr_iff)
  moreover have "lk = map ?f (rows h)"
    using assms(2) by (simp add: getitem_Inr_iff)
  ultimately have "set (select (map (\<lambda>s. s = Str ''Desmatriculado'') subetapa) lk)
      = {?f x |x. x \<in> set (rows h) \<and> ?p x}"
    by (simp only: set_select_map)
  also have "\<dots> = {e. desmatriculado_alguna_vez h e}"
    by (auto simp: desmatriculado_alguna_vez_def)
  finally show ?thesis .
qed

lemma crear_target_rows:
  assumes "crear_target op h = Inr out"
  shows "out = setitem op ''target''
           (map (\<lambda>r. if cell_at r ''ID'' \<noteq> NA \<and> formalizada h (cell_at r ''ID'')
                        \<and> \<not> desmatriculado_alguna_vez h (cell_at r ''ID'')
                      then Num 1 else Num 0) (rows op))"
proof -
  from assms obtain etapa subetapa lk ids where
    g: "getitem h ''PL_Etapa__c'' = Inr etapa" "getitem h ''PL_Subetapa__c'' = Inr subetapa"
       "getitem h ''LK_Oportunidad__c'' = Inr lk" "getitem op ''ID'' = Inr ids"
    and out: "out = setitem op ''target''
       (map (\<lambda>x. if np_contains (unique (select (map (\<lambda>(e, s). e = Str matricula_oogg \<and> s = Str ''Formalizada'')
                               (zip etapa subetapa)) lk)) x
                     \<and> \<not> np_contains (unique (select (map (\<lambda>s. s = Str ''Desmatriculado'') subetapa) lk)) x
                  then Num 1 else Num 0) ids)"
    unfolding crear_target_def
    by (auto simp: bind_Inr_iff Let_def split: if_splits)
  have ids: "ids = map (\<lambda>r. cell_at r ''ID'') (rows op)"
    using g(4) by (simp add: getitem_Inr_iff)
  show ?thesis
    unfolding out ids np_contains_def set_unique
      set_formalizadas [OF g(1,2,3)] set_desmatriculados [OF g(2,3)]
    by (simp add: comp_def cong: conj_cong)
qed

lemma crear_target_auditado_rows:
  assumes "crear_target_auditado op h = Inr out"
  shows "out = setitem op ''target''
           (map (\<lambda>r. if formalizada h (cell_at r ''ID'')
                        \<and> \<not> desmatriculado_alguna_vez h (cell_at r ''ID'')
                      then Num 1 else Num 0) (rows op))"
proof -
  from assms obtain etapa subetapa lk ids where
    g: "getitem h ''PL_Etapa__c'' = Inr etapa" "getitem h ''PL_Subetapa__c'' = Inr subetapa"
       "getitem h ''LK_Oportunidad__c'' = Inr lk" "getitem op ''ID'' = Inr ids"
    and out: "out = setitem op ''target''
       (map (\<lambda>x. if x \<in> set (unique (select (map (\<lambda>(e, s). e = Str matricula_oogg \<and> s = Str ''Formalizada'')
                               (zip etapa subetapa)) lk))
                       - set (unique (select (map (\<lambda>s. s = Str ''Desmatriculado'') subetapa) lk))
                  then Num 1 else Num 0) ids)"
    unfolding crear_target_auditado_def
    by (auto simp: bind_Inr_iff Let_def split: if_splits)
  have ids: "ids = map (\<lambda>r. cell_at r ''ID'') (rows op)"
    using g(4) by (simp add: getitem_Inr_iff)
  show ?thesis
    unfolding out ids set_unique
      set_formalizadas [OF g(1,2,3)] set_desmatriculados [OF g(2,3)]
    by (simp add: comp_def)
qed

lemma crear_target_auditado_total:
  assumes "''ID'' \<in> set (columns op)" "''LK_Oportunidad__c'' \<in> set (columns h)"
    "''PL_Etapa__c'' \<in> set (columns h)" "''PL_Subetapa__c'' \<in> set (columns h)"
  shows "\<exists>out. crear_target_auditado op h = Inr out"
  using assms by (simp add: crear_target_auditado_def getitem_def Let_def)

section \<open>The ratio of the price paid\<close>


lemma truediv_Inr_numerica:
  "truediv a b = Inr q \<Longrightarrow> numerica a \<and> numerica b"
  by (cases a; cases b) simp_all





section \<open>Leakage Guard: idempotence\<close>

text \<open>The guard, row by row.\<close>

lemma control_leakage_rows:
  assumes "control_leakage df = Inr out"
  shows "out = \<lparr>columns = columns df,
                rows = map (\<lambda>r. if mask_futuro (vars_pago_de df) r
                                 then anular (vars_pago_de df) r else r) (rows df)\<rparr>"
proof -
  let ?vs = "vars_pago_de df"
  have sub: "set ?vs \<subseteq> set (columns df)"
    by (auto simp: vars_pago_de_def)
  then have no_missing: "filter (\<lambda>c. c \<notin> set (columns df)) ?vs = []"
    by (auto simp: filter_empty_conv)
  have nuevas: "filter (\<lambda>c. c \<notin> set (columns df)) (remdups ?vs) = []"
    using sub by (auto simp: filter_empty_conv)
  from assms have et: "''PL_Etapa__c'' \<in> set (columns df)"
    and out: "out = loc_set_nan df
               (map (\<lambda>(e, p). e \<in> set (map Str etapas_pago) \<and> (\<exists>v \<in> set ?vs. cell_at p v \<noteq> NA))
                  (zip (map (\<lambda>r. cell_at r ''PL_Etapa__c'') (rows df))
                       (map (\<lambda>r. r |` set ?vs) (rows df))))
               ?vs"
    unfolding control_leakage_def vars_pago_de_def [symmetric] Let_def
    by (auto simp: bind_Inr_iff getitem_def getitems_def no_missing Let_def split: if_splits)
  have m: "map (\<lambda>(e, p). e \<in> set (map Str etapas_pago) \<and> (\<exists>v \<in> set ?vs. cell_at p v \<noteq> NA))
                  (zip (map (\<lambda>r. cell_at r ''PL_Etapa__c'') (rows df))
                       (map (\<lambda>r. r |` set ?vs) (rows df)))
           = map (mask_futuro ?vs) (rows df)"
    by (simp add: zip_map_map zip_same_conv_map mask_futuro_def cell_at_restrict cong: conj_cong bex_cong)
  have z: "map (\<lambda>(r, m). if m then anular ?vs r else anular [] r) (zip (rows df) (map (mask_futuro ?vs) (rows df)))
        = map (\<lambda>r. if mask_futuro ?vs r then anular ?vs r else r) (rows df)"
    by (simp add: zip_map2 zip_same_conv_map)
  show ?thesis
    unfolding out m by (simp add: loc_set_nan_def nuevas z)
qed

lemma control_leakage_Inr_iff:
  "(\<exists>out. control_leakage df = Inr out) \<longleftrightarrow> ''PL_Etapa__c'' \<in> set (columns df)"
proof -
  have "filter (\<lambda>c. c \<notin> set (columns df)) (filter (\<lambda>v. v \<in> set (columns df)) vars_pago_todas) = []"
    by (auto simp: filter_empty_conv)
  then show ?thesis
    by (simp add: control_leakage_def getitem_def getitems_def Let_def)
qed

lemma etapa_no_es_pago: "''PL_Etapa__c'' \<notin> set (vars_pago_de df)"
  by (simp add: vars_pago_de_def vars_pago_todas_def)

lemma mask_futuro_anular: "\<not> mask_futuro vs (anular vs r)"
  by (simp add: mask_futuro_def cell_at_anular)

section \<open>Temporal Stage Calculator: order, durations and gaps\<close>

lemma getitem_setitem_other:
  "length vs = length (rows df) \<Longrightarrow> c' \<noteq> c \<Longrightarrow> getitem (setitem df c vs) c' = getitem df c'"
  by (auto simp: getitem_def setitem_def intro!: nth_equalityI)

lemma to_datetime1_Inr:
  "to_datetime1 parse c = Inr d \<Longrightarrow> d = NA \<or> (\<exists>t. d = Date t)"
  by (auto simp: to_datetime1_def split: cell.splits option.splits)

lemma to_datetime1_fecha [simp]:
  "to_datetime1 parse NA = Inr NA" "to_datetime1 parse (Date t) = Inr (Date t)"
  by (simp_all add: to_datetime1_def)

lemma to_datetime_Inr:
  "to_datetime parse cs = Inr ds \<Longrightarrow>
   length ds = length cs \<and> (\<forall>i<length cs. to_datetime1 parse (cs ! i) = Inr (ds ! i))"
proof (induction cs arbitrary: ds)
  case Nil
  then show ?case by simp
next
  case (Cons c cs)
  then obtain d ds' where d: "to_datetime1 parse c = Inr d" "to_datetime parse cs = Inr ds'"
    "ds = d # ds'"
    by (auto simp: bind_Inr_iff)
  with Cons.IH [of ds'] show ?case
    by (auto simp: nth_Cons split: nat.splits)
qed


lemma groupby_shift_length:
  "length vs = length ks \<Longrightarrow> length (groupby_shift ks vs) = length ks"
  by (induction ks vs rule: groupby_shift.induct) simp_all



lemma getitem_setitem_same:
  "length vs = length (rows df) \<Longrightarrow> getitem (setitem df c vs) c = Inr vs"
  by (auto simp: getitem_def setitem_def intro!: nth_equalityI)

lemma sort_values_Inr:
  assumes "sort_values df c1 c2 = Inr out"
  shows "c1 \<in> set (columns df) \<and> c2 \<in> set (columns df)
     \<and> out = \<lparr>columns = columns df,
               rows = sort_key (\<lambda>r. (cell_key (cell_at r c1), cell_key (cell_at r c2))) (rows df)\<rparr>"
  using assms
  by (auto simp: sort_values_def bind_Inr_iff getitem_Inr_iff split: if_splits)

lemma dias_entre_NA [simp]: "dias_entre NA c = Num 0" "dias_entre c NA = Num 0"
  by (cases c; simp)+

lemma calcular_tiempos_etapas_Inr:
  assumes "calcular_tiempos_etapas parse h = Inr (h2, out)"
  shows "\<exists>creado fin ps.
      to_datetime parse (map inicio (rows h)) = Inr creado
    \<and> to_datetime parse (map final (rows h)) = Inr fin
    \<and> h2 = setitem (setitem h ''CreatedDate'' creado) ''Fecha_fin_etapa__c'' fin
    \<and> ps = sort_key clave_orden (rows h2)
    \<and> length (rows out) = length ps
    \<and> (\<forall>i<length ps. rows out ! i =
          (ps ! i)(''tiempo_etapa_dias'' \<mapsto> dias_entre (final (ps ! i)) (inicio (ps ! i)),
                   ''tiempo_entre_etapas_dias'' \<mapsto>
                      dias_entre (groupby_shift (map entidad ps) (map inicio ps) ! i)
                                 (inicio (ps ! i))))"
proof -
  let ?CD = "''CreatedDate''" and ?FF = "''Fecha_fin_etapa__c''" and ?LK = "''LK_Oportunidad__c''"
  from assms obtain c creado where c: "getitem h ?CD = Inr c"
    and creado: "to_datetime parse c = Inr creado"
    and rest1: "bind (getitem (setitem h ?CD creado) ?FF) (\<lambda>f.
     bind (to_datetime parse f) (\<lambda>fin.
     let h2 = setitem (setitem h ?CD creado) ?FF fin in
     bind (sort_values h2 ?LK ?CD) (\<lambda>h3.
     bind (getitem h3 ?FF) (\<lambda>fin3.
     bind (getitem h3 ?CD) (\<lambda>creado3.
     let h4 = setitem h3 ''tiempo_etapa_dias''
                (map (\<lambda>(a, b). dias_entre a b) (zip fin3 creado3)) in
     bind (getitem h4 ?LK) (\<lambda>lk4.
     bind (getitem h4 ?CD) (\<lambda>creado4.
     let fecha_siguiente = groupby_shift lk4 creado4;
         h5 = setitem h4 ''tiempo_entre_etapas_dias''
                (map (\<lambda>(a, b). dias_entre a b) (zip fecha_siguiente creado4))
     in Inr (h2, h5)))))))) = Inr (h2, out)"
    unfolding calcular_tiempos_etapas_def Let_def by (auto simp: bind_Inr_iff)
  have c_eq: "c = map inicio (rows h)"
    using c by (auto simp: getitem_Inr_iff inicio_def)
  have lc: "length creado = length (rows h)"
    using to_datetime_Inr [OF creado] c_eq by simp
  let ?h1 = "setitem h ?CD creado"
  from rest1 obtain f fin where f: "getitem ?h1 ?FF = Inr f"
    and fin: "to_datetime parse f = Inr fin"
    and h2: "h2 = setitem ?h1 ?FF fin"
    and rest2: "bind (sort_values h2 ?LK ?CD) (\<lambda>h3.
     bind (getitem h3 ?FF) (\<lambda>fin3.
     bind (getitem h3 ?CD) (\<lambda>creado3.
     let h4 = setitem h3 ''tiempo_etapa_dias''
                (map (\<lambda>(a, b). dias_entre a b) (zip fin3 creado3)) in
     bind (getitem h4 ?LK) (\<lambda>lk4.
     bind (getitem h4 ?CD) (\<lambda>creado4.
     let fecha_siguiente = groupby_shift lk4 creado4;
         h5 = setitem h4 ''tiempo_entre_etapas_dias''
                (map (\<lambda>(a, b). dias_entre a b) (zip fecha_siguiente creado4))
     in Inr (h2, h5)))))) = Inr (h2, out)"
    unfolding Let_def by (auto simp: bind_Inr_iff)
  have f_eq: "f = map final (rows h)"
    using f lc by (auto simp: getitem_setitem_other getitem_Inr_iff final_def)
  have l1: "length (rows ?h1) = length (rows h)"
    using lc by (simp add: setitem_def)
  have lf: "length fin = length (rows ?h1)"
    using to_datetime_Inr [OF fin] f_eq l1 by simp
  let ?ps = "sort_key clave_orden (rows h2)"
  from rest2 obtain h3 where h3: "sort_values h2 ?LK ?CD = Inr h3"
    and rest3: "bind (getitem h3 ?FF) (\<lambda>fin3.
     bind (getitem h3 ?CD) (\<lambda>creado3.
     let h4 = setitem h3 ''tiempo_etapa_dias''
                (map (\<lambda>(a, b). dias_entre a b) (zip fin3 creado3)) in
     bind (getitem h4 ?LK) (\<lambda>lk4.
     bind (getitem h4 ?CD) (\<lambda>creado4.
     let fecha_siguiente = groupby_shift lk4 creado4;
         h5 = setitem h4 ''tiempo_entre_etapas_dias''
                (map (\<lambda>(a, b). dias_entre a b) (zip fecha_siguiente creado4))
     in Inr (h2, h5))))) = Inr (h2, out)"
    by (auto simp: bind_Inr_iff)
  have h3_eq: "h3 = \<lparr>columns = columns h2, rows = ?ps\<rparr>"
    and lk_in: "?LK \<in> set (columns h2)"
    using sort_values_Inr [OF h3]
    by (simp_all add: clave_orden_def [abs_def] entidad_def inicio_def)
  have cols2: "?CD \<in> set (columns h2)" "?FF \<in> set (columns h2)"
    unfolding h2 by (simp_all add: set_columns_setitem)
  have g3: "getitem h3 ?FF = Inr (map final ?ps)" "getitem h3 ?CD = Inr (map inicio ?ps)"
    "getitem h3 ?LK = Inr (map entidad ?ps)"
    unfolding h3_eq using cols2 lk_in
    by (simp_all add: getitem_def final_def inicio_def entidad_def)
  let ?te = "map (\<lambda>r. dias_entre (final r) (inicio r)) ?ps"
  let ?h4 = "setitem h3 ''tiempo_etapa_dias'' ?te"
  have z1: "map (\<lambda>(a, b). dias_entre a b) (zip (map final ?ps) (map inicio ?ps)) = ?te"
    by (simp add: zip_map_map zip_same_conv_map)
  have l3: "length (rows h3) = length ?ps"
    unfolding h3_eq by simp
  have g4: "getitem ?h4 ?LK = Inr (map entidad ?ps)" "getitem ?h4 ?CD = Inr (map inicio ?ps)"
    using g3 l3 by (simp_all add: getitem_setitem_other)
  let ?gs = "groupby_shift (map entidad ?ps) (map inicio ?ps)"
  let ?tee = "map (\<lambda>(a, b). dias_entre a b) (zip ?gs (map inicio ?ps))"
  have out: "out = setitem ?h4 ''tiempo_entre_etapas_dias'' ?tee"
    using rest3 unfolding g3 bind_Inr Let_def z1 g4 by simp
  have lgs: "length ?gs = length ?ps"
    by (simp add: groupby_shift_length)
  have l4: "length (rows ?h4) = length ?ps"
    using l3 by (simp add: setitem_def)
  have lo: "length (rows out) = length ?ps"
    unfolding out using l4 lgs by (simp add: setitem_def)
  have ro: "rows out ! i =
          (?ps ! i)(''tiempo_etapa_dias'' \<mapsto> dias_entre (final (?ps ! i)) (inicio (?ps ! i)),
                   ''tiempo_entre_etapas_dias'' \<mapsto> dias_entre (?gs ! i) (inicio (?ps ! i)))"
    if "i < length ?ps" for i
  proof -
    have "rows ?h4 ! i = (?ps ! i)(''tiempo_etapa_dias'' \<mapsto> dias_entre (final (?ps ! i)) (inicio (?ps ! i)))"
      using that l3 by (simp add: rows_setitem h3_eq)
    moreover have "rows out ! i = (rows ?h4 ! i)(''tiempo_entre_etapas_dias'' \<mapsto> ?tee ! i)"
      unfolding out using that l4 lgs by (simp add: rows_setitem)
    moreover have "?tee ! i = dias_entre (?gs ! i) (inicio (?ps ! i))"
      using that lgs by simp
    ultimately show ?thesis by simp
  qed
  show ?thesis
    using creado fin h2 lo ro unfolding c_eq f_eq by blast
qed

lemma es_fecha_to_datetime1: "to_datetime1 parse c = Inr d \<Longrightarrow> es_fecha d"
  using to_datetime1_Inr [of parse c d] by auto



section \<open>More facts about frames\<close>

lemma select_map_map: "select (map p xs) (map f xs) = map f (filter p xs)"
  by (induction xs) (simp_all add: select_def)

lemma select_map_same: "select (map p xs) xs = filter p xs"
  using select_map_map [of p xs "\<lambda>x. x"] by simp

lemma rows_filtrar_map: "rows (filtrar df (map p (rows df))) = filter p (rows df)"
  by (simp add: filtrar_def select_map_same)

lemma columns_filtrar [simp]: "columns (filtrar df msk) = columns df"
  by (simp add: filtrar_def)

lemma rows_setitem_map:
  "rows (setitem df c (map f (rows df))) = map (\<lambda>r. r(c \<mapsto> f r)) (rows df)"
  by (simp add: setitem_def zip_map2 zip_same_conv_map)

lemma getitem_in: "c \<in> set (columns df) \<Longrightarrow> getitem df c = Inr (map (\<lambda>r. cell_at r c) (rows df))"
  by (simp add: getitem_def)

lemma getitem_notin: "c \<notin> set (columns df) \<Longrightarrow> getitem df c = Inl (KeyError [c])"
  by (simp add: getitem_def)

lemma getitems_in:
  "set cs \<subseteq> set (columns df) \<Longrightarrow>
   getitems df cs = Inr \<lparr>columns = cs, rows = map (\<lambda>r. r |` set cs) (rows df)\<rparr>"
  by (auto simp: getitems_def Let_def filter_empty_conv)

lemma drop_columns_in:
  "set cs \<subseteq> set (columns df) \<Longrightarrow>
   drop_columns df cs = Inr \<lparr>columns = filter (\<lambda>c. c \<notin> set cs) (columns df),
                            rows = map (\<lambda>r. r |` (- set cs)) (rows df)\<rparr>"
  by (auto simp: drop_columns_def Let_def filter_empty_conv)

lemma merge_in:
  "set lon \<subseteq> set (columns l) \<Longrightarrow> set ron \<subseteq> set (columns r) \<Longrightarrow>
   merge left l r lon ron = Inr (merge_ok left l r lon ron)"
  by (auto simp: merge_def Let_def filter_empty_conv)

lemma to_datetime1_convertible:
  "convertible parse c \<Longrightarrow> to_datetime1 parse c = Inr (fecha_de parse c)"
  by (simp add: convertible_def fecha_de_def split: sum.splits)

lemma to_datetime1_no_convertible:
  "\<not> convertible parse c \<Longrightarrow> to_datetime1 parse c = Inl ValueError"
  by (auto simp: convertible_def to_datetime1_def split: sum.splits cell.splits option.splits)

lemma to_datetime_convertible:
  "\<forall>c\<in>set cs. convertible parse c \<Longrightarrow> to_datetime parse cs = Inr (map (fecha_de parse) cs)"
  by (induction cs) (simp_all add: to_datetime1_convertible)

lemma to_datetime_no_convertible:
  "\<not> (\<forall>c\<in>set cs. convertible parse c) \<Longrightarrow> to_datetime parse cs = Inl ValueError"
proof (induction cs)
  case Nil
  then show ?case by simp
next
  case (Cons c cs)
  show ?case
  proof (cases "convertible parse c")
    case True
    with Cons show ?thesis by (simp add: to_datetime1_convertible)
  next
    case False
    then show ?thesis by (simp add: to_datetime1_no_convertible)
  qed
qed

lemma to_datetime_Inr_iff:
  "to_datetime parse cs = Inr ds \<longleftrightarrow>
     (\<forall>c\<in>set cs. convertible parse c) \<and> ds = map (fecha_de parse) cs"
  using to_datetime_convertible [of cs parse] to_datetime_no_convertible [of cs parse]
  by (cases "\<forall>c\<in>set cs. convertible parse c") auto

lemma convertible_fecha [simp]: "convertible parse NA" "convertible parse (Date t)"
  by (simp_all add: convertible_def)

lemma fecha_de_fecha [simp]: "fecha_de parse NA = NA" "fecha_de parse (Date t) = Date t"
  by (simp_all add: fecha_de_def)

lemma es_fecha_fecha_de: "es_fecha (fecha_de parse c)"
  by (auto simp: fecha_de_def split: sum.splits dest: es_fecha_to_datetime1)

lemma sufijo_Nil [simp]: "sufijo [] sfx = (\<lambda>c. c)"
  by (simp add: sufijo_def fun_eq_iff)

lemma renombrar_id:
  "renombrar cs (\<lambda>c. c) r = (\<lambda>c. if c \<in> set cs then Some (cell_at r c) else None)"
  by (induction cs) (auto simp: renombrar_def fun_eq_iff)

lemma cell_at_map_add:
  "cell_at (a ++ b) c = (if b c = None then cell_at a c else cell_at b c)"
  by (auto simp: cell_at_def map_add_def split: option.splits)

lemma cell_at_Some: "r c = Some v \<Longrightarrow> cell_at r c = v"
  by (simp add: cell_at_def)

lemma cell_at_None: "r c = None \<Longrightarrow> cell_at r c = NA"
  by (simp add: cell_at_def)

lemma cell_at_fun_upd_None [simp]:
  "cell_at (r(c := None)) c' = (if c' = c then NA else cell_at r c')"
  by (simp add: cell_at_def)

lemma cell_at_fun_upd_other: "c' \<noteq> c \<Longrightarrow> cell_at (r(c := v)) c' = cell_at r c'"
  by (simp add: cell_at_def)

lemma cell_at_restrict_compl: "c \<notin> A \<Longrightarrow> cell_at (r |` (- A)) c = cell_at r c"
  by (simp add: cell_at_def)

lemma enumerate_map_nth: "enumerate 0 xs = map (\<lambda>i. (i, xs ! i)) [0..<length xs]"
  by (simp add: enumerate_eq_zip zip_eq_conv comp_def map_nth)

lemma sum_list_concat_map:
  fixes g :: "'c \<Rightarrow> real"
  shows "sum_list (map g (concat (map (\<lambda>x. map (h x) (M x)) xs)))
         = sum_list (map (\<lambda>x. sum_list (map (\<lambda>y. g (h x y)) (M x))) xs)"
  by (induction xs) (simp_all add: comp_def)

lemma sum_list_solo_uno:
  fixes F :: "nat \<Rightarrow> real"
  assumes "i < n" "\<And>j. j < n \<Longrightarrow> j \<noteq> i \<Longrightarrow> F j = 0"
  shows "sum_list (map F [0..<n]) = F i"
proof -
  have "sum_list (map F [0..<n]) = (\<Sum>j = 0..<n. F j)"
    by (simp add: sum_list_sum_nth)
  also have "\<dots> = (\<Sum>j \<in> {i}. F j)"
    using assms by (intro sum.mono_neutral_right) auto
  finally show ?thesis by simp
qed

lemma sum_list_indicador:
  "sum_list (map (\<lambda>x. if p x then 1 else (0::real)) xs) = of_nat (length (filter p xs))"
  by (induction xs) simp_all

lemma filter_eq_distinct:
  "distinct xs \<Longrightarrow> filter (\<lambda>e. e = v) xs = (if v \<in> set xs then [v] else [])"
  by (induction xs) auto

lemma distinct_unique [simp]: "distinct (unique xs)"
  by (simp add: unique_def)

lemma distinct_claves_de_grupo [simp]: "distinct (claves_de_grupo ks)"
  by (simp add: claves_de_grupo_def)

lemma set_claves_de_grupo [simp]: "set (claves_de_grupo ks) = set ks - {NA}"
  by (auto simp: claves_de_grupo_def)


lemma cell_at_union_renombrar:
  "cell_at (renombrar L (\<lambda>c. c) x ++ renombrar D (\<lambda>c. c) y) c =
     (if c \<in> set D then cell_at y c else if c \<in> set L then cell_at x c else NA)"
  by (simp add: renombrar_id cell_at_def map_add_def)

lemma merge_ok_inner_rows:
  assumes "merge_solapadas l r lon ron = []"
  shows "rows (merge_ok False l r lon ron) =
     concat (map (\<lambda>x. map (\<lambda>y. renombrar (columns l) (\<lambda>c. c) x
                                   ++ renombrar (merge_rcols r lon ron) (\<lambda>c. c) y)
                         (filter (\<lambda>y. map (cell_at y) ron = map (cell_at x) lon) (rows r)))
                 (rows l))"
proof -
  have "(if ps = [] then [] else map f ps) = map f ps" for f :: "row \<Rightarrow> row" and ps
    by simp
  then show ?thesis
    by (simp add: merge_ok_def assms Let_def cong del: if_weak_cong)
qed

lemma merge_ok_columns:
  assumes "merge_solapadas l r lon ron = []"
  shows "columns (merge_ok left l r lon ron) = columns l @ merge_rcols r lon ron"
  by (simp add: merge_ok_def assms Let_def)

lemma concat_map_singleton:
  "(\<And>x. x \<in> set xs \<Longrightarrow> f x = [g x]) \<Longrightarrow> concat (map f xs) = map g xs"
  by (induction xs) simp_all

lemma merge_ok_left_rows_unico:
  assumes "merge_solapadas l r lon ron = []"
    and "\<And>x. x \<in> set (rows l) \<Longrightarrow>
           length (filter (\<lambda>y. map (cell_at y) ron = map (cell_at x) lon) (rows r)) \<le> 1"
  shows "rows (merge_ok True l r lon ron) =
     map (\<lambda>x. renombrar (columns l) (\<lambda>c. c) x ++
               renombrar (merge_rcols r lon ron) (\<lambda>c. c)
                 (case filter (\<lambda>y. map (cell_at y) ron = map (cell_at x) lon) (rows r) of
                    [] \<Rightarrow> Map.empty | y # ys \<Rightarrow> y))
         (rows l)"
proof -
  let ?f = "\<lambda>x. filter (\<lambda>y. map (cell_at y) ron = map (cell_at x) lon) (rows r)"
  let ?P = "\<lambda>x. renombrar (columns l) (\<lambda>c. c) x"
  let ?Q = "renombrar (merge_rcols r lon ron) (\<lambda>c. c)"
  have one: "(if ?f x = [] then [?P x ++ ?Q Map.empty] else map (\<lambda>b. ?P x ++ ?Q b) (?f x))
           = [?P x ++ ?Q (case ?f x of [] \<Rightarrow> Map.empty | y # ys \<Rightarrow> y)]"
    if "x \<in> set (rows l)" for x
    using assms(2) [OF that] by (cases "?f x") auto
  have "rows (merge_ok True l r lon ron) =
      concat (map (\<lambda>x. if ?f x = [] then [?P x ++ ?Q Map.empty]
                        else map (\<lambda>b. ?P x ++ ?Q b) (?f x)) (rows l))"
    by (simp add: merge_ok_def assms Let_def cong del: if_weak_cong)
  also have "\<dots> = map (\<lambda>x. ?P x ++ ?Q (case ?f x of [] \<Rightarrow> Map.empty | y # ys \<Rightarrow> y)) (rows l)"
    by (rule concat_map_singleton) (rule one)
  finally show ?thesis .
qed

lemma select_ninguno: "\<forall>x\<in>set ks. \<not> p x \<Longrightarrow> select (map p ks) vs = []"
  by (auto simp: select_def filter_empty_conv dest!: set_zip_leftD)

lemma sum_list_filter_if:
  fixes f :: "'a \<Rightarrow> real"
  shows "sum_list (map f (filter p xs)) = sum_list (map (\<lambda>x. if p x then f x else 0) xs)"
  by (induction xs) simp_all

lemma num_indicador: "num (if p then Num 1 else Num 0) = (if p then 1 else 0)"
  by (simp add: num_def)

lemma es_asiste_iff:
  "es_asiste (str_lower c) = Num 1 \<longleftrightarrow>
     (case c of Str s \<Rightarrow> lower s \<in> set [''asiste''] | _ \<Rightarrow> False)"
  by (cases c) (simp_all add: es_asiste_def str_lower_def)

lemma es_solicitado_iff:
  "es_solicitado (str_lower c) = Num 1 \<longleftrightarrow>
     (case c of Str s \<Rightarrow> lower s \<in> set [''solicitado'', ''solicita asistir''] | _ \<Rightarrow> False)"
  by (cases c) (auto simp: es_solicitado_def str_lower_def)

lemma rows_insert_index:
  "rows (insert_index df c) = map (\<lambda>i. (rows df ! i)(c \<mapsto> Num (of_nat i))) [0..<length (rows df)]"
  by (simp add: insert_index_def enumerate_map_nth)

lemma columns_insert_index [simp]: "columns (insert_index df c) = c # columns df"
  by (simp add: insert_index_def)

lemma rows_rename_insert_index:
  assumes "new \<noteq> c"
  shows "rows (rename (insert_index df c) c new) =
           map (\<lambda>i. ((rows df ! i)(c := None))(new \<mapsto> Num (of_nat i))) [0..<length (rows df)]"
  using assms by (simp add: rename_def rows_insert_index fun_upd_twist)

lemma columns_rename_insert_index:
  assumes "c \<notin> set (columns df)"
  shows "columns (rename (insert_index df c) c new) = new # columns df"
proof -
  have "map (\<lambda>x. if x = c then new else x) (columns df) = columns df"
    using assms by (intro map_idI) auto
  then show ?thesis by (simp add: rename_def)
qed


section \<open>Progressive Activity Aggregator: what a call that returns has computed\<close>

lemma integrar_exito:
  assumes ca: "set columnas_actividades \<subseteq> set (columns a)"
    and cm: "set columnas_master \<subseteq> set (columns m)"
    and fa: "actividades_convertibles parse a"
    and fm: "fechas_convertibles parse m"
    and nl: "nombres_libres m"
  shows "\<exists>res. integrar_actividades_progresivo_por_curso parse m a
           = Inr (setitem m ''MasterDate''
                    (map (fecha_de parse) (map (\<lambda>r. cell_at r ''CreatedDate'') (rows m))), res)
      \<and> columns res = filter (\<lambda>c. c \<noteq> ''MasterDate'') (columns m)
                        @ [''num_asistencias_acum'', ''num_solicitudes_acum'']
      \<and> length (rows res) = length (rows m)
      \<and> (\<forall>i<length (rows m).
           cell_at (rows res ! i) ''num_asistencias_acum''
             = Num (of_nat (asistencias_previas parse (rows m ! i) (rows a)))
         \<and> cell_at (rows res ! i) ''num_solicitudes_acum''
             = Num (of_nat (solicitudes_previas parse (rows m ! i) (rows a)))
         \<and> (\<forall>c\<in>set (columns m). c \<noteq> ''MasterDate''
               \<longrightarrow> cell_at (rows res ! i) c = cell_at (rows m ! i) c))"
proof -
  let ?CD = "''CreatedDate''" and ?MD = "''MasterDate''" and ?AD = "''ActivityDate''"
  let ?SL = "''status_lower''" and ?F = "''fila_id_unico''"
  let ?N1 = "''num_asistencias_acum''" and ?N2 = "''num_solicitudes_acum''"
  let ?L = "[?F, ''ID18__PC'', ?MD, ''PL_CURSO_ACADEMICO'']"
  let ?D = "[''ContactId'', ?AD, ?SL, ''Campaign.AcademicCourse__c'']"
  let ?lon = "[''ID18__PC'', ''PL_CURSO_ACADEMICO'']"
  let ?ron = "[''ContactId'', ''Campaign.AcademicCourse__c'']"
  have ca': "col_tipo_act \<in> set (columns a)" "?CD \<in> set (columns a)"
    "''Estado_del_miembro__c'' \<in> set (columns a)" "''ContactId'' \<in> set (columns a)"
    "''Campaign.AcademicCourse__c'' \<in> set (columns a)"
    using ca by (simp_all add: columnas_actividades_def)
  have cm': "?CD \<in> set (columns m)" "''ID18__PC'' \<in> set (columns m)"
    "''PL_CURSO_ACADEMICO'' \<in> set (columns m)"
    using cm by (simp_all add: columnas_master_def)
  have nl': "''index'' \<notin> set (columns m)" "?F \<notin> set (columns m)"
    "?N1 \<notin> set (columns m)" "?N2 \<notin> set (columns m)"
    using nl by (simp_all add: nombres_libres_def)
  have tipo_ne: "col_tipo_act \<noteq> ?AD" "col_tipo_act \<noteq> ?SL"
    by (simp_all add: col_tipo_act_def)

  \<comment> \<open>the activities\<close>
  define tipo where "tipo = map (\<lambda>r. cell_at r col_tipo_act) (rows a)"
  have g1: "getitem a col_tipo_act = Inr tipo"
    unfolding tipo_def using ca' by (simp add: getitem_in)
  define act0 where "act0 = filtrar a (map actividad_limpia tipo)"
  have r_act0: "rows act0 = filter (\<lambda>b. actividad_limpia (cell_at b col_tipo_act)) (rows a)"
    unfolding act0_def tipo_def map_map comp_def by (rule rows_filtrar_map)
  have c_act0: "columns act0 = columns a"
    by (simp add: act0_def)
  define cad where "cad = map (\<lambda>r. cell_at r ?CD) (rows act0)"
  have g2: "getitem act0 ?CD = Inr cad"
    unfolding cad_def using ca' by (simp add: getitem_in c_act0)
  define ad where "ad = map (fecha_de parse) cad"
  have g3: "to_datetime parse cad = Inr ad"
    unfolding ad_def cad_def using fa
    by (intro to_datetime_convertible) (auto simp: r_act0 actividades_convertibles_def)
  define act1 where "act1 = setitem act0 ?AD ad"
  have r_act1: "rows act1 = map (\<lambda>b. b(?AD \<mapsto> fecha_de parse (cell_at b ?CD))) (rows act0)"
    unfolding act1_def ad_def cad_def map_map comp_def by (rule rows_setitem_map)
  have c_act1: "set (columns act1) = insert ?AD (set (columns a))"
    by (simp add: act1_def set_columns_setitem c_act0)
  define estado where "estado = map (\<lambda>r. cell_at r ''Estado_del_miembro__c'') (rows act1)"
  have g6: "getitem act1 ''Estado_del_miembro__c'' = Inr estado"
    unfolding estado_def using ca' by (simp add: getitem_in c_act1)
  define clean where "clean = setitem act1 ?SL (map str_lower estado)"
  have r_clean0: "rows clean = map (\<lambda>b. b(?SL \<mapsto> str_lower (cell_at b ''Estado_del_miembro__c'')))
                                (rows act1)"
    unfolding clean_def estado_def map_map comp_def by (rule rows_setitem_map)
  define U where "U = (\<lambda>b::row. (b(?AD \<mapsto> fecha_de parse (cell_at b ?CD)))
                            (?SL \<mapsto> str_lower (cell_at b ''Estado_del_miembro__c'')))"
  have r_clean: "rows clean = map U (filter (\<lambda>b. actividad_limpia (cell_at b col_tipo_act)) (rows a))"
    unfolding r_clean0 r_act1 r_act0 U_def by (simp add: comp_def)
  have c_clean: "set (columns clean) = insert ?SL (insert ?AD (set (columns a)))"
    by (simp add: clean_def set_columns_setitem c_act1)

  \<comment> \<open>the master frame\<close>
  define cmd where "cmd = map (\<lambda>r. cell_at r ?CD) (rows m)"
  have g4: "getitem m ?CD = Inr cmd"
    unfolding cmd_def using cm' by (simp add: getitem_in)
  define md where "md = map (fecha_de parse) cmd"
  have g5: "to_datetime parse cmd = Inr md"
    unfolding md_def cmd_def using fm
    by (intro to_datetime_convertible) (auto simp: fechas_convertibles_def)
  define master1 where "master1 = setitem m ?MD md"
  have r_master1: "rows master1 = map (\<lambda>r. r(?MD \<mapsto> fecha_de parse (cell_at r ?CD))) (rows m)"
    unfolding master1_def md_def cmd_def map_map comp_def by (rule rows_setitem_map)
  have c_master1: "set (columns master1) = insert ?MD (set (columns m))"
    by (simp add: master1_def set_columns_setitem)
  have cols_master1: "columns master1 = (if ?MD \<in> set (columns m) then columns m else columns m @ [?MD])"
    by (simp add: master1_def setitem_def)
  have idx1: "''index'' \<notin> set (columns master1)"
    using nl' by (simp add: c_master1)
  have g7: "reset_index master1 = Inr (insert_index master1 ''index'')"
    using idx1 by (simp add: reset_index_def)
  define master2 where "master2 = rename (insert_index master1 ''index'') ''index'' ?F"
  have c_master2: "columns master2 = ?F # columns master1"
    unfolding master2_def using idx1 by (rule columns_rename_insert_index)
  define V where "V = (\<lambda>i. (((rows m ! i)(?MD \<mapsto> fecha_de parse (cell_at (rows m ! i) ?CD)))
                           (''index'' := None))(?F \<mapsto> Num (of_nat i)))"
  have r_master2: "rows master2 = map V [0..<length (rows m)]"
    unfolding master2_def V_def
    by (simp add: rows_rename_insert_index r_master1)
  define izq where "izq = \<lparr>columns = ?L, rows = map (\<lambda>r. r |` set ?L) (rows master2)\<rparr>"
  have g8: "getitems master2 ?L = Inr izq"
    unfolding izq_def using cm' by (intro getitems_in) (simp add: c_master2 c_master1)
  define der where "der = \<lparr>columns = ?D, rows = map (\<lambda>r. r |` set ?D) (rows clean)\<rparr>"
  have g9: "getitems clean ?D = Inr der"
    unfolding der_def using ca' by (intro getitems_in) (simp add: c_clean)

  \<comment> \<open>the join\<close>
  define joined0 where "joined0 = merge_ok False izq der ?lon ?ron"
  have g10: "merge False izq der ?lon ?ron = Inr joined0"
    unfolding joined0_def by (intro merge_in) (simp_all add: izq_def der_def)
  have rc0: "merge_rcols der ?lon ?ron = ?D"
    by (simp add: merge_rcols_def der_def)
  have so0: "merge_solapadas izq der ?lon ?ron = []"
    by (simp add: merge_solapadas_def rc0 izq_def)
  have c_joined0: "columns joined0 = ?L @ ?D"
    unfolding joined0_def merge_ok_columns [OF so0] rc0 by (simp add: izq_def)
  define h where "h = (\<lambda>(x::row) (y::row). renombrar ?L (\<lambda>c. c) x ++ renombrar ?D (\<lambda>c. c) y)"
  have r_joined0: "rows joined0 =
      concat (map (\<lambda>x. map (h x) (filter (\<lambda>y. map (cell_at y) ?ron = map (cell_at x) ?lon) (rows der)))
                (rows izq))"
    unfolding joined0_def merge_ok_inner_rows [OF so0] rc0 h_def by (simp add: izq_def)
  define adj where "adj = map (\<lambda>r. cell_at r ?AD) (rows joined0)"
  define mdj where "mdj = map (\<lambda>r. cell_at r ?MD) (rows joined0)"
  have g11: "getitem joined0 ?AD = Inr adj" and g12: "getitem joined0 ?MD = Inr mdj"
    unfolding adj_def mdj_def by (simp_all add: getitem_in c_joined0)
  define joined1 where "joined1 = filtrar joined0 (map (\<lambda>(a, m). fecha_menor a m) (zip adj mdj))"
  define T where "T = (\<lambda>j::row. fecha_menor (cell_at j ?AD) (cell_at j ?MD))"
  have r_joined1: "rows joined1 = filter T (rows joined0)"
  proof -
    have "map (\<lambda>(a, m). fecha_menor a m) (zip adj mdj) = map T (rows joined0)"
      by (simp add: adj_def mdj_def T_def zip_map_map zip_same_conv_map)
    then show ?thesis
      unfolding joined1_def by (simp add: rows_filtrar_map)
  qed
  define sl1 where "sl1 = map (\<lambda>r. cell_at r ?SL) (rows joined1)"
  have g13: "getitem joined1 ?SL = Inr sl1"
    unfolding sl1_def by (simp add: getitem_in joined1_def c_joined0)
  define joined2 where "joined2 = setitem joined1 ''es_asiste'' (map es_asiste sl1)"
  have r_joined2: "rows joined2 = map (\<lambda>j. j(''es_asiste'' \<mapsto> es_asiste (cell_at j ?SL))) (rows joined1)"
    unfolding joined2_def sl1_def map_map comp_def by (rule rows_setitem_map)
  have c_joined2: "set (columns joined2) = insert ''es_asiste'' (set (?L @ ?D))"
    by (simp add: joined2_def set_columns_setitem joined1_def c_joined0)
  define sl2 where "sl2 = map (\<lambda>r. cell_at r ?SL) (rows joined2)"
  have g14: "getitem joined2 ?SL = Inr sl2"
    unfolding sl2_def by (simp add: getitem_in c_joined2)
  define dfj where "dfj = setitem joined2 ''es_solicitado'' (map es_solicitado sl2)"
  have r_dfj0: "rows dfj = map (\<lambda>j. j(''es_solicitado'' \<mapsto> es_solicitado (cell_at j ?SL))) (rows joined2)"
    unfolding dfj_def sl2_def map_map comp_def by (rule rows_setitem_map)
  define W where "W = (\<lambda>j::row. (j(''es_asiste'' \<mapsto> es_asiste (cell_at j ?SL)))
                               (''es_solicitado'' \<mapsto> es_solicitado (cell_at j ?SL)))"
  have r_dfj: "rows dfj = map W (filter T (rows joined0))"
    unfolding r_dfj0 r_joined2 r_joined1 W_def by (simp add: comp_def)
  have c_dfj: "set (columns dfj) = insert ''es_solicitado'' (insert ''es_asiste'' (set (?L @ ?D)))"
    by (simp add: dfj_def set_columns_setitem c_joined2)

  \<comment> \<open>the sums\<close>
  define ks where "ks = map (\<lambda>r. cell_at r ?F) (rows dfj)"
  define v1 where "v1 = map (\<lambda>r. cell_at r ''es_asiste'') (rows dfj)"
  define v2 where "v2 = map (\<lambda>r. cell_at r ''es_solicitado'') (rows dfj)"
  define resumen where "resumen = \<lparr>columns = [?F, ?N1, ?N2],
       rows = map (fila_de_sumas ?F ?N1 ?N2 ks v1 v2) (claves_de_grupo ks)\<rparr>"
  have g15: "groupby_sum dfj ?F ?N1 ''es_asiste'' ?N2 ''es_solicitado'' = Inr resumen"
    unfolding groupby_sum_def resumen_def ks_def v1_def v2_def
    by (simp add: getitem_in c_dfj)
  define final0 where "final0 = merge_ok True master2 resumen [?F] [?F]"
  have g16: "merge True master2 resumen [?F] [?F] = Inr final0"
    unfolding final0_def by (intro merge_in) (simp_all add: c_master2 resumen_def)
  have rc1: "merge_rcols resumen [?F] [?F] = [?N1, ?N2]"
    by (simp add: merge_rcols_def resumen_def)
  have so1: "merge_solapadas master2 resumen [?F] [?F] = []"
    using nl' by (auto simp: merge_solapadas_def rc1 c_master2 cols_master1 filter_empty_conv)
  have c_final0: "columns final0 = ?F # columns master1 @ [?N1, ?N2]"
    unfolding final0_def merge_ok_columns [OF so1] rc1 by (simp add: c_master2)
  define cont where "cont = \<lparr>columns = [?N1, ?N2], rows = map (\<lambda>r. r |` set [?N1, ?N2]) (rows final0)\<rparr>"
  have g17: "getitems final0 [?N1, ?N2] = Inr cont"
    unfolding cont_def by (intro getitems_in) (simp add: c_final0)
  define na where "na = map (\<lambda>r. cell_at r ?N1) (rows cont)"
  define ns where "ns = map (\<lambda>r. cell_at r ?N2) (rows cont)"
  have g18: "getitem cont ?N1 = Inr na" and g19: "getitem cont ?N2 = Inr ns"
    unfolding na_def ns_def by (simp_all add: getitem_in cont_def)
  define final1 where "final1 = setitem final0 ?N1 (map fillna0_int na)"
  define v3 where "v3 = setitem final1 ?N2 (map fillna0_int ns)"
  have c_v3: "columns v3 = ?F # columns master1 @ [?N1, ?N2]"
    by (simp add: v3_def final1_def setitem_def c_final0)
  define res where "res = \<lparr>columns = filter (\<lambda>c. c \<notin> set [?F, ?MD]) (columns v3),
                            rows = map (\<lambda>r. r |` (- set [?F, ?MD])) (rows v3)\<rparr>"
  have g20: "drop_columns v3 [?F, ?MD] = Inr res"
    unfolding res_def by (intro drop_columns_in) (simp add: c_v3 c_master1)

  have eq: "integrar_actividades_progresivo_por_curso parse m a = Inr (master1, res)"
    unfolding integrar_actividades_progresivo_por_curso_def
    by (simp only: Let_def g1 bind_Inr act0_def [symmetric] g2 g3 act1_def [symmetric] g4 g5
        master1_def [symmetric] g6 clean_def [symmetric] g7 master2_def [symmetric] g8 g9 g10
        g11 g12 joined1_def [symmetric] g13 joined2_def [symmetric] g14 dfj_def [symmetric]
        g15 g16 g17 g18 g19 final1_def [symmetric] v3_def [symmetric] g20)
  \<comment> \<open>the cells of a joined row\<close>
  have cell_h: "cell_at (h x y) c =
      (if c \<in> set ?D then cell_at y c else if c \<in> set ?L then cell_at x c else NA)" for x y c
    unfolding h_def by (rule cell_at_union_renombrar)
  define X where "X = (\<lambda>i. V i |` set ?L)"
  have r_izq: "rows izq = map X [0..<length (rows m)]"
    by (simp add: izq_def r_master2 X_def)
  have X_F: "cell_at (X i) ?F = Num (of_nat i)" for i
    by (simp add: X_def V_def cell_at_def)
  have X_MD: "cell_at (X i) ?MD = fecha_de parse (cell_at (rows m ! i) ?CD)" for i
    by (simp add: X_def V_def cell_at_def)
  have X_k1: "cell_at (X i) ''ID18__PC'' = cell_at (rows m ! i) ''ID18__PC''" for i
    by (simp add: X_def V_def cell_at_def)
  have X_k2: "cell_at (X i) ''PL_CURSO_ACADEMICO'' = cell_at (rows m ! i) ''PL_CURSO_ACADEMICO''" for i
    by (simp add: X_def V_def cell_at_def)
  define Y where "Y = (\<lambda>b. U b |` set ?D)"
  have r_der: "rows der = map Y (filter (\<lambda>b. actividad_limpia (cell_at b col_tipo_act)) (rows a))"
    by (simp add: der_def r_clean Y_def)
  have Y_AD: "cell_at (Y b) ?AD = fecha_de parse (cell_at b ?CD)" for b
    by (simp add: Y_def U_def cell_at_def)
  have Y_SL: "cell_at (Y b) ?SL = str_lower (cell_at b ''Estado_del_miembro__c'')" for b
    by (simp add: Y_def U_def cell_at_def)
  have Y_k1: "cell_at (Y b) ''ContactId'' = cell_at b ''ContactId''" for b
    by (simp add: Y_def U_def cell_at_def)
  have Y_k2: "cell_at (Y b) ''Campaign.AcademicCourse__c'' = cell_at b ''Campaign.AcademicCourse__c''" for b
    by (simp add: Y_def U_def cell_at_def)

  \<comment> \<open>the sum of an indicator over the group of a master row\<close>
  have key: "suma (select (map (\<lambda>x. x = Num (of_nat i)) ks) (map (\<lambda>r. cell_at r cc) (rows dfj)))
      = Num (of_nat (length (filter (\<lambda>b. actividad_previa parse (rows m ! i) b
             \<and> ind (str_lower (cell_at b ''Estado_del_miembro__c'')) = Num 1) (rows a))))"
    if i: "i < length (rows m)"
      and cc: "\<And>j. cell_at (W j) cc = ind (cell_at j ?SL)"
      and ind: "\<And>s. ind s = Num 1 \<or> ind s = Num 0"
    for i cc ind
  proof -
    let ?e = "Num (of_nat i)"
    let ?r = "rows m ! i"
    have num_Num: "num (Num x) = x" for x
      by (simp add: num_def)
    have nind: "num (ind s) = (if ind s = Num 1 then 1 else 0)" for s
      using ind [of s] by (auto simp: num_def)
    define g where "g = (\<lambda>j. if T j \<and> cell_at j ?F = ?e then num (ind (cell_at j ?SL)) else 0)"
    have W_F: "cell_at (W j) ?F = cell_at j ?F" for j
      by (simp add: W_def)
    have "select (map (\<lambda>x. x = ?e) ks) (map (\<lambda>r. cell_at r cc) (rows dfj))
          = map (\<lambda>r. cell_at r cc) (filter (\<lambda>j. cell_at j ?F = ?e) (rows dfj))"
      unfolding ks_def map_map comp_def by (rule select_map_map)
    also have "\<dots> = map (\<lambda>j. ind (cell_at j ?SL)) (filter (\<lambda>j. cell_at j ?F = ?e) (filter T (rows joined0)))"
      unfolding r_dfj by (simp add: filter_map comp_def W_F cc)
    finally have "suma (select (map (\<lambda>x. x = ?e) ks) (map (\<lambda>r. cell_at r cc) (rows dfj)))
          = Num (sum_list (map (\<lambda>j. num (ind (cell_at j ?SL)))
                    (filter (\<lambda>j. T j \<and> cell_at j ?F = ?e) (rows joined0))))"
      by (simp add: suma_def comp_def conj_commute)
    also have "sum_list (map (\<lambda>j. num (ind (cell_at j ?SL)))
                    (filter (\<lambda>j. T j \<and> cell_at j ?F = ?e) (rows joined0)))
          = sum_list (map g (rows joined0))"
      unfolding g_def by (rule sum_list_filter_if)
    also have "\<dots> = sum_list (map (\<lambda>x. sum_list (map (\<lambda>y. g (h x y))
                 (filter (\<lambda>y. map (cell_at y) ?ron = map (cell_at x) ?lon) (rows der)))) (rows izq))"
      unfolding r_joined0 by (rule sum_list_concat_map)
    also have "\<dots> = sum_list (map (\<lambda>k. sum_list (map (\<lambda>y. g (h (X k) y))
                 (filter (\<lambda>y. map (cell_at y) ?ron = map (cell_at (X k)) ?lon) (rows der))))
                 [0..<length (rows m)])"
      unfolding r_izq by (simp add: comp_def)
    also have "\<dots> = sum_list (map (\<lambda>y. g (h (X i) y))
                 (filter (\<lambda>y. map (cell_at y) ?ron = map (cell_at (X i)) ?lon) (rows der)))"
    proof (rule sum_list_solo_uno [OF i])
      fix k assume "k < length (rows m)" "k \<noteq> i"
      then have "g (h (X k) y) = 0" for y
        by (simp add: g_def cell_h X_F)
      then show "sum_list (map (\<lambda>y. g (h (X k) y))
                 (filter (\<lambda>y. map (cell_at y) ?ron = map (cell_at (X k)) ?lon) (rows der))) = 0"
        by simp
    qed
    also have "\<dots> = sum_list (map (\<lambda>b. if fecha_menor (fecha_de parse (cell_at b ?CD))
                                              (fecha_de parse (cell_at ?r ?CD))
                                   then num (ind (str_lower (cell_at b ''Estado_del_miembro__c'')))
                                   else 0)
             (filter (\<lambda>b. cell_at b ''ContactId'' = cell_at ?r ''ID18__PC''
                          \<and> cell_at b ''Campaign.AcademicCourse__c'' = cell_at ?r ''PL_CURSO_ACADEMICO'')
                (filter (\<lambda>b. actividad_limpia (cell_at b col_tipo_act)) (rows a))))"
      unfolding r_der
      by (simp add: filter_map comp_def g_def cell_h T_def X_F X_MD X_k1 X_k2 Y_AD Y_SL Y_k1 Y_k2
          cong del: if_weak_cong)
    also have "\<dots> = sum_list (map (\<lambda>b. if actividad_previa parse ?r b
                        \<and> ind (str_lower (cell_at b ''Estado_del_miembro__c'')) = Num 1
                      then 1 else 0) (rows a))"
      unfolding sum_list_filter_if
      by (intro arg_cong [where f = sum_list] map_cong refl)
         (auto simp: actividad_previa_def anterior_def nind num_Num)
    also have "\<dots> = of_nat (length (filter (\<lambda>b. actividad_previa parse ?r b
                        \<and> ind (str_lower (cell_at b ''Estado_del_miembro__c'')) = Num 1) (rows a)))"
      by (rule sum_list_indicador)
    finally show ?thesis .
  qed
  have W1: "cell_at (W j) ''es_asiste'' = es_asiste (cell_at j ?SL)"
    and W2: "cell_at (W j) ''es_solicitado'' = es_solicitado (cell_at j ?SL)" for j
    by (simp_all add: W_def)
  have S1: "suma (select (map (\<lambda>x. x = Num (of_nat i)) ks) v1)
              = Num (of_nat (asistencias_previas parse (rows m ! i) (rows a)))"
    if "i < length (rows m)" for i
    unfolding v1_def asistencias_previas_def estado_es_def es_asiste_iff [symmetric]
    by (rule key [OF that W1]) (simp add: es_asiste_def)
  have S2: "suma (select (map (\<lambda>x. x = Num (of_nat i)) ks) v2)
              = Num (of_nat (solicitudes_previas parse (rows m ! i) (rows a)))"
    if "i < length (rows m)" for i
    unfolding v2_def solicitudes_previas_def estado_es_def es_solicitado_iff [symmetric]
    by (rule key [OF that W2]) (simp add: es_solicitado_def)
  \<comment> \<open>the consolidation\<close>
  define G where "G = claves_de_grupo ks"
  define mk where "mk = fila_de_sumas ?F ?N1 ?N2 ks v1 v2"
  have mk_F: "cell_at (mk e) ?F = e"
    and mk_1: "cell_at (mk e) ?N1 = suma (select (map (\<lambda>x. x = e) ks) v1)"
    and mk_2: "cell_at (mk e) ?N2 = suma (select (map (\<lambda>x. x = e) ks) v2)" for e
    by (simp_all add: mk_def fila_de_sumas_def cell_at_def)
  have r_resumen: "rows resumen = map mk G"
    by (simp add: resumen_def mk_def G_def)
  have pareja: "filter (\<lambda>y. map (cell_at y) [?F] = map (cell_at x) [?F]) (rows resumen)
                  = (if cell_at x ?F \<in> set G then [mk (cell_at x ?F)] else [])" for x
  proof -
    have "filter (\<lambda>y. map (cell_at y) [?F] = map (cell_at x) [?F]) (rows resumen)
          = map mk (filter (\<lambda>e. e = cell_at x ?F) G)"
      by (simp add: r_resumen filter_map comp_def mk_F)
    also have "filter (\<lambda>e. e = cell_at x ?F) G = (if cell_at x ?F \<in> set G then [cell_at x ?F] else [])"
      by (rule filter_eq_distinct) (simp add: G_def)
    finally show ?thesis by simp
  qed
  define Z where "Z = (\<lambda>x::row. if cell_at x ?F \<in> set G then mk (cell_at x ?F) else Map.empty)"
  have r_final0: "rows final0 =
      map (\<lambda>x. renombrar (columns master2) (\<lambda>c. c) x ++ renombrar [?N1, ?N2] (\<lambda>c. c) (Z x))
        (rows master2)"
  proof -
    have "rows final0 = map (\<lambda>x. renombrar (columns master2) (\<lambda>c. c) x ++
               renombrar (merge_rcols resumen [?F] [?F]) (\<lambda>c. c)
                 (case filter (\<lambda>y. map (cell_at y) [?F] = map (cell_at x) [?F]) (rows resumen) of
                    [] \<Rightarrow> Map.empty | y # ys \<Rightarrow> y)) (rows master2)"
      unfolding final0_def
      by (rule merge_ok_left_rows_unico [OF so1]) (simp only: pareja, simp)
    also have "\<dots> = map (\<lambda>x. renombrar (columns master2) (\<lambda>c. c) x
                           ++ renombrar [?N1, ?N2] (\<lambda>c. c) (Z x)) (rows master2)"
      unfolding rc1 pareja Z_def by (intro map_cong refl) simp
    finally show ?thesis .
  qed
  have l_final0: "length (rows final0) = length (rows m)"
    by (simp add: r_final0 r_master2)
  have n_final0: "rows final0 ! i =
      renombrar (columns master2) (\<lambda>c. c) (V i) ++ renombrar [?N1, ?N2] (\<lambda>c. c) (Z (V i))"
    if "i < length (rows m)" for i
    using that by (simp add: r_final0 r_master2)
  have V_F: "cell_at (V i) ?F = Num (of_nat i)" for i
    by (simp add: V_def)
  have V_c: "cell_at (V i) c = cell_at (rows m ! i) c"
    if "c \<noteq> ?MD" "c \<noteq> ''index''" "c \<noteq> ?F" for i c
    using that by (simp add: V_def)
  have vacio: "suma (select (map (\<lambda>x. x = e) ks) vs) = Num 0" if "e \<notin> set G" "e \<noteq> NA" for e vs
  proof -
    have "\<forall>x\<in>set ks. \<not> x = e"
      using that by (auto simp: G_def)
    then show ?thesis
      by (simp add: select_ninguno suma_def)
  qed
  have f_1: "fillna0_int (cell_at (rows final0 ! i) ?N1)
               = Num (of_nat (asistencias_previas parse (rows m ! i) (rows a)))"
    and f_2: "fillna0_int (cell_at (rows final0 ! i) ?N2)
               = Num (of_nat (solicitudes_previas parse (rows m ! i) (rows a)))"
    if i: "i < length (rows m)" for i
  proof -
    show "fillna0_int (cell_at (rows final0 ! i) ?N1)
               = Num (of_nat (asistencias_previas parse (rows m ! i) (rows a)))"
    proof (cases "Num (of_nat i) \<in> set G")
      case True
      then show ?thesis
        by (simp add: n_final0 [OF i] cell_at_union_renombrar Z_def V_F mk_1 S1 [OF i]
            fillna0_int_def)
    next
      case False
      from vacio [OF False, of v1] S1 [OF i]
      have "asistencias_previas parse (rows m ! i) (rows a) = 0" by simp
      with False show ?thesis
        by (simp add: n_final0 [OF i] cell_at_union_renombrar Z_def V_F fillna0_int_def
            cell_at_None)
    qed
    show "fillna0_int (cell_at (rows final0 ! i) ?N2)
               = Num (of_nat (solicitudes_previas parse (rows m ! i) (rows a)))"
    proof (cases "Num (of_nat i) \<in> set G")
      case True
      then show ?thesis
        by (simp add: n_final0 [OF i] cell_at_union_renombrar Z_def V_F mk_2 S2 [OF i]
            fillna0_int_def)
    next
      case False
      from vacio [OF False, of v2] S2 [OF i]
      have "solicitudes_previas parse (rows m ! i) (rows a) = 0" by simp
      with False show ?thesis
        by (simp add: n_final0 [OF i] cell_at_union_renombrar Z_def V_F fillna0_int_def
            cell_at_None)
    qed
  qed
  have l_na: "length na = length (rows m)" "length ns = length (rows m)"
    by (simp_all add: na_def ns_def cont_def l_final0)
  have l_final1: "length (rows final1) = length (rows m)"
    by (simp add: final1_def setitem_def l_final0 l_na)
  have n_v3: "rows v3 ! i =
      (rows final0 ! i)(?N1 \<mapsto> fillna0_int (cell_at (rows final0 ! i) ?N1),
                        ?N2 \<mapsto> fillna0_int (cell_at (rows final0 ! i) ?N2))"
    if i: "i < length (rows m)" for i
  proof -
    have "na ! i = cell_at (rows final0 ! i) ?N1" "ns ! i = cell_at (rows final0 ! i) ?N2"
      using i by (simp_all add: na_def ns_def cont_def l_final0 cell_at_def)
    moreover have "rows final1 ! i = (rows final0 ! i)(?N1 \<mapsto> fillna0_int (na ! i))"
      unfolding final1_def using i by (simp add: rows_setitem l_final0 l_na)
    moreover have "rows v3 ! i = (rows final1 ! i)(?N2 \<mapsto> fillna0_int (ns ! i))"
      unfolding v3_def using i by (simp add: rows_setitem l_final1 l_na)
    ultimately show ?thesis by simp
  qed
  have l_v3: "length (rows v3) = length (rows m)"
    by (simp add: v3_def setitem_def l_final1 l_na)
  have l_res: "length (rows res) = length (rows m)"
    by (simp add: res_def l_v3)
  have n_res: "rows res ! i = (rows v3 ! i) |` (- set [?F, ?MD])" if "i < length (rows m)" for i
    using that by (simp add: res_def l_v3)
  have c_res: "columns res = filter (\<lambda>c. c \<noteq> ?MD) (columns m) @ [?N1, ?N2]"
  proof -
    have "filter (\<lambda>c. c \<notin> set [?F, ?MD]) (columns master1) = filter (\<lambda>c. c \<noteq> ?MD) (columns m)"
      using nl' by (auto simp: cols_master1 intro!: filter_cong)
    then show ?thesis
      by (simp add: res_def c_v3)
  qed
  have cells: "cell_at (rows res ! i) ?N1 = Num (of_nat (asistencias_previas parse (rows m ! i) (rows a)))
         \<and> cell_at (rows res ! i) ?N2 = Num (of_nat (solicitudes_previas parse (rows m ! i) (rows a)))
         \<and> (\<forall>c\<in>set (columns m). c \<noteq> ?MD \<longrightarrow> cell_at (rows res ! i) c = cell_at (rows m ! i) c)"
    if i: "i < length (rows m)" for i
  proof (intro conjI ballI impI)
    have r: "cell_at (rows res ! i) c = cell_at (rows v3 ! i) c" if "c \<noteq> ?F" "c \<noteq> ?MD" for c
      unfolding n_res [OF i] using that by (intro cell_at_restrict_compl) simp
    have "cell_at (rows v3 ! i) ?N1 = fillna0_int (cell_at (rows final0 ! i) ?N1)"
      unfolding n_v3 [OF i] by simp
    then show "cell_at (rows res ! i) ?N1
                 = Num (of_nat (asistencias_previas parse (rows m ! i) (rows a)))"
      by (simp add: r f_1 [OF i])
    have "cell_at (rows v3 ! i) ?N2 = fillna0_int (cell_at (rows final0 ! i) ?N2)"
      unfolding n_v3 [OF i] by simp
    then show "cell_at (rows res ! i) ?N2
                 = Num (of_nat (solicitudes_previas parse (rows m ! i) (rows a)))"
      by (simp add: r f_2 [OF i])
    fix c assume c: "c \<in> set (columns m)" "c \<noteq> ?MD"
    then have ne: "c \<noteq> ?F" "c \<noteq> ?N1" "c \<noteq> ?N2" "c \<noteq> ''index''"
      using nl' by auto
    have in2: "c \<in> set (columns master2)"
      using c by (simp add: c_master2 c_master1)
    have "cell_at (rows res ! i) c = cell_at (rows v3 ! i) c"
      using ne c by (intro r)
    also have "\<dots> = cell_at (rows final0 ! i) c"
      unfolding n_v3 [OF i] using ne by simp
    also have "\<dots> = cell_at (V i) c"
      unfolding n_final0 [OF i] cell_at_union_renombrar using ne in2 by simp
    also have "\<dots> = cell_at (rows m ! i) c"
      using c ne by (intro V_c)
    finally show "cell_at (rows res ! i) c = cell_at (rows m ! i) c" .
  qed
  have eq': "integrar_actividades_progresivo_por_curso parse m a
           = Inr (setitem m ?MD (map (fecha_de parse) (map (\<lambda>r. cell_at r ?CD) (rows m))), res)"
    using eq by (simp only: master1_def md_def cmd_def)
  have todas: "\<forall>i<length (rows m).
           cell_at (rows res ! i) ?N1 = Num (of_nat (asistencias_previas parse (rows m ! i) (rows a)))
         \<and> cell_at (rows res ! i) ?N2 = Num (of_nat (solicitudes_previas parse (rows m ! i) (rows a)))
         \<and> (\<forall>c\<in>set (columns m). c \<noteq> ?MD \<longrightarrow> cell_at (rows res ! i) c = cell_at (rows m ! i) c)"
    by (intro allI impI) (rule cells)
  show ?thesis
    by (rule exI [of _ res]) (intro conjI eq' c_res l_res todas)
qed


lemma filter_notin_Nil: "filter (\<lambda>c. c \<notin> A) cs = [] \<longleftrightarrow> set cs \<subseteq> A"
  by (auto simp: filter_empty_conv)

lemma integrar_fallo:
  assumes nl: "nombres_libres m"
    and no: "\<not> (set columnas_actividades \<subseteq> set (columns a)
                \<and> set columnas_master \<subseteq> set (columns m)
                \<and> actividades_convertibles parse a \<and> fechas_convertibles parse m)"
  shows "\<exists>e. integrar_actividades_progresivo_por_curso parse m a = Inl e
     \<and> (e = ValueError \<or> (\<exists>cs. e = KeyError cs \<and> cs \<noteq> [] \<and> (\<forall>c\<in>set cs. falta m a c)))
     \<and> (actividades_convertibles parse a \<and> fechas_convertibles parse m \<longrightarrow> e \<noteq> ValueError)"
proof -
  let ?CD = "''CreatedDate''" and ?MD = "''MasterDate''" and ?AD = "''ActivityDate''"
  let ?SL = "''status_lower''" and ?F = "''fila_id_unico''" and ?E = "''Estado_del_miembro__c''"
  let ?L = "[?F, ''ID18__PC'', ?MD, ''PL_CURSO_ACADEMICO'']"
  let ?D = "[''ContactId'', ?AD, ?SL, ''Campaign.AcademicCourse__c'']"
  let ?I = "integrar_actividades_progresivo_por_curso parse m a"
  have nl': "''index'' \<notin> set (columns m)" "?F \<notin> set (columns m)"
    using nl by (simp_all add: nombres_libres_def)
  have key_error: ?thesis if "?I = Inl (KeyError cs)" "cs \<noteq> []" "\<forall>c\<in>set cs. falta m a c" for cs
    using that by simp
  have fa_a: "falta m a c" if "c \<in> set columnas_actividades" "c \<notin> set (columns a)" for c
    using that by (simp add: falta_def)
  have fa_m: "falta m a c" if "c \<in> set columnas_master" "c \<notin> set (columns m)" for c
    using that by (simp add: falta_def)
  define tipo where "tipo = map (\<lambda>r. cell_at r col_tipo_act) (rows a)"
  define act0 where "act0 = filtrar a (map actividad_limpia tipo)"
  define cad where "cad = map (\<lambda>r. cell_at r ?CD) (rows act0)"
  define ad where "ad = map (fecha_de parse) cad"
  define act1 where "act1 = setitem act0 ?AD ad"
  define cmd where "cmd = map (\<lambda>r. cell_at r ?CD) (rows m)"
  define md where "md = map (fecha_de parse) cmd"
  define master1 where "master1 = setitem m ?MD md"
  define estado where "estado = map (\<lambda>r. cell_at r ?E) (rows act1)"
  define clean where "clean = setitem act1 ?SL (map str_lower estado)"
  define master2 where "master2 = rename (insert_index master1 ''index'') ''index'' ?F"
  have r_act0: "rows act0 = filter (\<lambda>b. actividad_limpia (cell_at b col_tipo_act)) (rows a)"
    unfolding act0_def tipo_def map_map comp_def by (rule rows_filtrar_map)
  have c_act0: "columns act0 = columns a"
    by (simp add: act0_def)
  have c_act1: "set (columns act1) = insert ?AD (set (columns a))"
    by (simp add: act1_def set_columns_setitem c_act0)
  have c_clean: "set (columns clean) = insert ?SL (insert ?AD (set (columns a)))"
    by (simp add: clean_def set_columns_setitem c_act1)
  have c_master1: "set (columns master1) = insert ?MD (set (columns m))"
    by (simp add: master1_def set_columns_setitem)
  have idx1: "''index'' \<notin> set (columns master1)"
    using nl' by (simp add: c_master1)
  have c_master2: "columns master2 = ?F # columns master1"
    unfolding master2_def using idx1 by (rule columns_rename_insert_index)
  have g7: "reset_index master1 = Inr (insert_index master1 ''index'')"
    using idx1 by (simp add: reset_index_def)
  note defs = integrar_actividades_progresivo_por_curso_def
  note folds = act0_def [symmetric] act1_def [symmetric] master1_def [symmetric]
    clean_def [symmetric] master2_def [symmetric]
  show ?thesis
  proof (cases "col_tipo_act \<in> set (columns a)")
    case False
    then have "?I = Inl (KeyError [col_tipo_act])"
      by (simp add: defs getitem_notin)
    then show ?thesis
      using False by (intro key_error [of "[col_tipo_act]"]) (simp_all add: fa_a columnas_actividades_def)
  next
    case c1: True
    then have g1: "getitem a col_tipo_act = Inr tipo"
      by (simp add: tipo_def getitem_in)
    show ?thesis
    proof (cases "?CD \<in> set (columns a)")
      case False
      then have "getitem act0 ?CD = Inl (KeyError [?CD])"
        by (simp add: getitem_notin c_act0)
      then have "?I = Inl (KeyError [?CD])"
        unfolding defs by (simp only: Let_def g1 bind_Inr folds bind_Inl)
      then show ?thesis
        using False by (intro key_error [of "[?CD]"]) (simp_all add: fa_a columnas_actividades_def)
    next
      case c2: True
      then have g2: "getitem act0 ?CD = Inr cad"
        by (simp add: cad_def getitem_in c_act0)
      show ?thesis
      proof (cases "actividades_convertibles parse a")
        case False
        then have "to_datetime parse cad = Inl ValueError"
          unfolding cad_def
          by (intro to_datetime_no_convertible) (auto simp: actividades_convertibles_def r_act0)
        then have "?I = Inl ValueError"
          unfolding defs by (simp only: Let_def g1 bind_Inr folds g2 bind_Inl)
        with False show ?thesis by simp
      next
        case fa: True
        then have g3: "to_datetime parse cad = Inr ad"
          unfolding ad_def cad_def
          by (intro to_datetime_convertible) (auto simp: r_act0 actividades_convertibles_def)
        show ?thesis
        proof (cases "?CD \<in> set (columns m)")
          case False
          then have "getitem m ?CD = Inl (KeyError [?CD])"
            by (simp add: getitem_notin)
          then have "?I = Inl (KeyError [?CD])"
            unfolding defs by (simp only: Let_def g1 bind_Inr folds g2 g3 bind_Inl)
          then show ?thesis
            using False by (intro key_error [of "[?CD]"]) (simp_all add: fa_m columnas_master_def)
        next
          case c3: True
          then have g4: "getitem m ?CD = Inr cmd"
            by (simp add: cmd_def getitem_in)
          show ?thesis
          proof (cases "fechas_convertibles parse m")
            case False
            then have "to_datetime parse cmd = Inl ValueError"
              unfolding cmd_def
              by (intro to_datetime_no_convertible) (auto simp: fechas_convertibles_def)
            then have "?I = Inl ValueError"
              unfolding defs by (simp only: Let_def g1 bind_Inr folds g2 g3 g4 bind_Inl)
            with False show ?thesis by simp
          next
            case fm: True
            then have g5: "to_datetime parse cmd = Inr md"
              unfolding md_def cmd_def
              by (intro to_datetime_convertible) (auto simp: fechas_convertibles_def)
            show ?thesis
            proof (cases "?E \<in> set (columns a)")
              case False
              then have "getitem act1 ?E = Inl (KeyError [?E])"
                by (simp add: getitem_notin c_act1)
              then have "?I = Inl (KeyError [?E])"
                unfolding defs by (simp only: Let_def g1 bind_Inr folds g2 g3 g4 g5 bind_Inl)
              then show ?thesis
                using False
                by (intro key_error [of "[?E]"]) (simp_all add: fa_a columnas_actividades_def)
            next
              case c4: True
              then have g6: "getitem act1 ?E = Inr estado"
                by (simp add: estado_def getitem_in c_act1)
              let ?fm = "filter (\<lambda>c. c \<notin> set (columns master2)) ?L"
              show ?thesis
              proof (cases "?fm = []")
                case False
                then have "getitems master2 ?L = Inl (KeyError ?fm)"
                  by (simp add: getitems_def Let_def)
                then have "?I = Inl (KeyError ?fm)"
                  unfolding defs
                  by (simp only: Let_def g1 bind_Inr folds g2 g3 g4 g5 g6 g7 bind_Inl)
                moreover have "\<forall>c\<in>set ?fm. falta m a c"
                  by (auto simp: c_master2 c_master1 falta_def columnas_master_def)
                ultimately show ?thesis
                  using False by (intro key_error [of ?fm])
              next
                case m_ok: True
                then have sL: "set ?L \<subseteq> set (columns master2)"
                  by (simp only: filter_notin_Nil)
                have g8: "getitems master2 ?L
                    = Inr \<lparr>columns = ?L, rows = map (\<lambda>r. r |` set ?L) (rows master2)\<rparr>"
                  using sL by (rule getitems_in)
                let ?fa = "filter (\<lambda>c. c \<notin> set (columns clean)) ?D"
                show ?thesis
                proof (cases "?fa = []")
                  case False
                  then have "getitems clean ?D = Inl (KeyError ?fa)"
                    by (simp add: getitems_def Let_def)
                  then have "?I = Inl (KeyError ?fa)"
                    unfolding defs
                    by (simp only: Let_def g1 bind_Inr folds g2 g3 g4 g5 g6 g7 g8 bind_Inl)
                  moreover have "\<forall>c\<in>set ?fa. falta m a c"
                    by (auto simp: c_clean falta_def columnas_actividades_def)
                  ultimately show ?thesis
                    using False by (intro key_error [of ?fa])
                next
                  case a_ok: True
                  have "set ?D \<subseteq> set (columns clean)"
                    using a_ok by (simp only: filter_notin_Nil)
                  then have "set columnas_actividades \<subseteq> set (columns a)"
                    using c1 c2 c4 by (auto simp: c_clean columnas_actividades_def)
                  moreover have "set columnas_master \<subseteq> set (columns m)"
                    using sL c3 by (auto simp: c_master2 c_master1 columnas_master_def)
                  ultimately show ?thesis
                    using no fa fm by simp
                qed
              qed
            qed
          qed
        qed
      qed
    qed
  qed
qed


lemma integrar_Inr:
  assumes r: "integrar_actividades_progresivo_por_curso parse m a = Inr (m1, res)"
    and nl: "nombres_libres m"
  shows "m1 = setitem m ''MasterDate''
                (map (fecha_de parse) (map (\<lambda>r. cell_at r ''CreatedDate'') (rows m)))
      \<and> columns res = filter (\<lambda>c. c \<noteq> ''MasterDate'') (columns m)
                        @ [''num_asistencias_acum'', ''num_solicitudes_acum'']
      \<and> length (rows res) = length (rows m)
      \<and> (\<forall>i<length (rows m).
           cell_at (rows res ! i) ''num_asistencias_acum''
             = Num (of_nat (asistencias_previas parse (rows m ! i) (rows a)))
         \<and> cell_at (rows res ! i) ''num_solicitudes_acum''
             = Num (of_nat (solicitudes_previas parse (rows m ! i) (rows a)))
         \<and> (\<forall>c\<in>set (columns m). c \<noteq> ''MasterDate''
               \<longrightarrow> cell_at (rows res ! i) c = cell_at (rows m ! i) c))"
proof -
  have ok: "set columnas_actividades \<subseteq> set (columns a)" "set columnas_master \<subseteq> set (columns m)"
      "actividades_convertibles parse a" "fechas_convertibles parse m"
    using integrar_fallo [OF nl, of a parse] r by auto
  from integrar_exito [OF ok nl] r show ?thesis
    by auto
qed

lemma integrar_entrada:
  assumes "integrar_actividades_progresivo_por_curso parse m a = Inr (m1, res)"
  shows "m1 = setitem m ''MasterDate''
                (map (fecha_de parse) (map (\<lambda>r. cell_at r ''CreatedDate'') (rows m)))"
  using assms unfolding integrar_actividades_progresivo_por_curso_def Let_def
  by (auto simp: bind_Inr_iff getitem_Inr_iff to_datetime_Inr_iff)







lemma ej_master_ok:
  "set columnas_master \<subseteq> set (columns ej_master)" "fechas_convertibles sin_parser ej_master"
  "nombres_libres ej_master" "length (rows ej_master) = 3"
  by code_simp+

lemma ej_actividades_ok:
  "set columnas_actividades \<subseteq> set (columns ej_actividades)"
  "actividades_convertibles sin_parser ej_actividades"
  "set columnas_actividades \<subseteq> set (columns ej_actividades_antes)"
  "actividades_convertibles sin_parser ej_actividades_antes"
  "set columnas_actividades \<subseteq> set (columns ej_actividades_vacia)"
  "actividades_convertibles sin_parser ej_actividades_vacia"
  by code_simp+


section \<open>What the calls leave in the frames of the caller\<close>

lemma limpiar_entrada:
  assumes "limpiar_historial_por_hitos parse h p = Inr (h1, out)"
  shows "''CreatedDate'' \<in> set (columns h)
     \<and> h1 = setitem h ''CreatedDate''
               (map (fecha_de parse) (map (\<lambda>r. cell_at r ''CreatedDate'') (rows h)))"
  using assms unfolding limpiar_historial_por_hitos_def Let_def
  by (auto simp: bind_Inr_iff getitem_Inr_iff to_datetime_Inr_iff)

lemma calcular_entrada:
  assumes "calcular_tiempos_etapas parse h = Inr (h1, out)"
  shows "''CreatedDate'' \<in> set (columns h) \<and> ''Fecha_fin_etapa__c'' \<in> set (columns h)
     \<and> h1 = setitem (setitem h ''CreatedDate''
                        (map (fecha_de parse) (map (\<lambda>r. cell_at r ''CreatedDate'') (rows h))))
               ''Fecha_fin_etapa__c''
               (map (fecha_de parse) (map (\<lambda>r. cell_at r ''Fecha_fin_etapa__c'') (rows h)))"
proof -
  from assms have c: "''CreatedDate'' \<in> set (columns h)"
    unfolding calcular_tiempos_etapas_def Let_def
    by (auto simp: bind_Inr_iff getitem_Inr_iff)
  from assms obtain creado where cr: "to_datetime parse (map (\<lambda>r. cell_at r ''CreatedDate'') (rows h)) = Inr creado"
    and f: "''Fecha_fin_etapa__c'' \<in> set (columns (setitem h ''CreatedDate'' creado))"
    unfolding calcular_tiempos_etapas_def Let_def
    by (auto simp: bind_Inr_iff getitem_Inr_iff)
  from f have f': "''Fecha_fin_etapa__c'' \<in> set (columns h)"
    by (simp add: set_columns_setitem)
  from calcular_tiempos_etapas_Inr [OF assms] obtain creado fin where
    "to_datetime parse (map inicio (rows h)) = Inr creado"
    "to_datetime parse (map final (rows h)) = Inr fin"
    "h1 = setitem (setitem h ''CreatedDate'' creado) ''Fecha_fin_etapa__c'' fin"
    by blast
  then show ?thesis
    using c f' by (simp add: to_datetime_Inr_iff inicio_def [abs_def] final_def [abs_def])
qed

lemma setitem_map_efecto:
  assumes "c \<in> set (columns df)"
  shows "columns (setitem df c (map f (map g (rows df)))) = columns df"
    and "length (rows (setitem df c (map f (map g (rows df))))) = length (rows df)"
    and "i < length (rows df) \<Longrightarrow>
           rows (setitem df c (map f (map g (rows df)))) ! i = (rows df ! i)(c \<mapsto> f (g (rows df ! i)))"
  using assms by (simp_all add: setitem_def)

lemma es_fecha_igual: "es_fecha c \<Longrightarrow> fecha_de parse c = c"
  by (cases c) simp_all


section \<open>Facts on the milestone filter\<close>

lemma min_fecha_Min:
  "min_fecha cs = (if fechas cs = [] then NA else Date (Min (set (fechas cs))))"
proof (cases "fechas cs")
  case Nil
  then show ?thesis by (simp add: min_fecha_def)
next
  case (Cons t ts)
  have "fold min ts t = Min (set (t # ts))"
    by (rule Min.set_eq_fold [symmetric])
  then show ?thesis by (simp add: min_fecha_def Cons)
qed

lemma rows_loc_set_nan_map:
  "rows (loc_set_nan df (map (\<lambda>(h, c). P h c)
           (zip (map (\<lambda>r. cell_at r a) (rows df)) (map (\<lambda>r. cell_at r b) (rows df)))) cols)
   = map (\<lambda>r. if P (cell_at r a) (cell_at r b) then anular cols r
               else anular (filter (\<lambda>c. c \<notin> set (columns df)) (remdups cols)) r) (rows df)"
  by (auto simp: loc_set_nan_def Let_def intro!: nth_equalityI)

lemma sin_sufijo_sufijo:
  assumes "\<forall>d. c \<noteq> d @ sfx"
  shows "sufijo S sfx c' = c \<longleftrightarrow> c' = c \<and> c \<notin> set S"
  using assms by (auto simp: sufijo_def)

lemma renombrar_None:
  assumes "\<forall>c'\<in>set cs. f c' \<noteq> c"
  shows "renombrar cs f r c = None"
  using assms by (induction cs) (auto simp: renombrar_def)

lemma renombrar_Some:
  assumes "c \<in> set cs" "\<forall>c'\<in>set cs. f c' = f c \<longrightarrow> c' = c"
  shows "renombrar cs f r (f c) = Some (cell_at r c)"
  using assms by (induction cs) (auto simp: renombrar_def)

lemma merge_ok_rows_concat:
  "rows (merge_ok True l r lon ron) =
     concat (map (\<lambda>a. let ps = filter (\<lambda>b. map (cell_at b) ron = map (cell_at a) lon) (rows r)
                      in map (\<lambda>b. renombrar (columns l) (sufijo (merge_solapadas l r lon ron) ''_x'') a
                                   ++ renombrar (merge_rcols r lon ron)
                                        (sufijo (merge_solapadas l r lon ron) ''_y'') b)
                           (if ps = [] then [Map.empty] else ps)) (rows l))"
proof -
  have "map f (if ps = [] then [Map.empty] else ps) = (if ps = [] then [f Map.empty] else map f ps)"
    for f :: "row \<Rightarrow> row" and ps
    by simp
  then show ?thesis
    unfolding merge_ok_def Let_def by (simp cong del: if_weak_cong)
qed

lemma merge_ok_celda_izquierda:
  assumes c: "c \<in> set (columns l)" "c \<notin> set (merge_rcols r lon ron)"
    and s: "\<forall>d. c \<noteq> d @ ''_x''" "\<forall>d. c \<noteq> d @ ''_y''"
  shows "cell_at (renombrar (columns l) (sufijo (merge_solapadas l r lon ron) ''_x'') a
                  ++ renombrar (merge_rcols r lon ron)
                       (sufijo (merge_solapadas l r lon ron) ''_y'') b) c = cell_at a c"
proof -
  let ?S = "merge_solapadas l r lon ron"
  have n: "c \<notin> set ?S"
    using c by (simp add: merge_solapadas_def)
  have A: "renombrar (merge_rcols r lon ron) (sufijo ?S ''_y'') b c = None"
    by (rule renombrar_None) (use c s in \<open>auto simp: sin_sufijo_sufijo\<close>)
  have "renombrar (columns l) (sufijo ?S ''_x'') a (sufijo ?S ''_x'' c) = Some (cell_at a c)"
    by (rule renombrar_Some [OF c(1)]) (use n s in \<open>auto simp: sufijo_def split: if_splits\<close>)
  moreover have "sufijo ?S ''_x'' c = c"
    using n by (simp add: sufijo_def)
  ultimately have B: "renombrar (columns l) (sufijo ?S ''_x'') a c = Some (cell_at a c)"
    by simp
  show ?thesis
    by (simp add: cell_at_map_add A) (simp add: cell_at_def B)
qed

lemma merge_ok_columna_izquierda:
  assumes "c \<in> set (columns l)" "c \<in> set (columns (merge_ok left l r lon ron))"
    and x: "\<forall>d. c \<noteq> d @ ''_x''" and y: "\<forall>d. c \<noteq> d @ ''_y''"
  shows "c \<notin> set (merge_rcols r lon ron)"
proof -
  let ?S = "merge_solapadas l r lon ron"
  from assms(2) have "c \<in> sufijo ?S ''_x'' ` set (columns l)
                      \<or> c \<in> sufijo ?S ''_y'' ` set (merge_rcols r lon ron)"
    by (simp add: merge_ok_def Let_def)
  then have "c \<notin> set ?S"
    using sin_sufijo_sufijo [OF x] sin_sufijo_sufijo [OF y] by blast
  then show ?thesis
    using assms(1) by (simp add: merge_solapadas_def)
qed

lemma groupby_min_Inr:
  assumes "groupby_min df k v nombre = Inr g"
  shows "k \<in> set (columns df) \<and> v \<in> set (columns df)
     \<and> g = \<lparr>columns = [k, nombre],
            rows = map (fila_de_minimo k nombre (map (\<lambda>r. cell_at r k) (rows df))
                          (map (\<lambda>r. cell_at r v) (rows df)))
                     (claves_de_grupo (map (\<lambda>r. cell_at r k) (rows df)))\<rparr>"
  using assms unfolding groupby_min_def
  by (auto simp: bind_Inr_iff getitem_Inr_iff)

lemma merge_hito:
  assumes g: "groupby_min df k v nombre = Inr g" and kn: "k \<noteq> nombre"
    and n: "nombre \<notin> set (columns l)"
  shows "columns (merge_ok True l g [k] [k]) = columns l @ [nombre]"
    and "rows (merge_ok True l g [k] [k]) =
      map (\<lambda>a. renombrar (columns l) (\<lambda>c. c) a ++
            [nombre \<mapsto> (if cell_at a k = NA then NA
                          else min_fecha (map (\<lambda>r. cell_at r v)
                                 (filter (\<lambda>r. cell_at r k = cell_at a k) (rows df))))])
        (rows l)"
proof -
  define ks where "ks = map (\<lambda>r. cell_at r k) (rows df)"
  define vs where "vs = map (\<lambda>r. cell_at r v) (rows df)"
  define G where "G = claves_de_grupo ks"
  define mk where "mk = fila_de_minimo k nombre ks vs"
  from groupby_min_Inr [OF g]
  have gd: "g = \<lparr>columns = [k, nombre], rows = map mk G\<rparr>"
    by (simp add: ks_def vs_def G_def mk_def)
  have rc: "merge_rcols g [k] [k] = [nombre]"
    using kn by (simp add: merge_rcols_def gd)
  have so: "merge_solapadas l g [k] [k] = []"
    using n by (auto simp: merge_solapadas_def rc filter_empty_conv)
  show "columns (merge_ok True l g [k] [k]) = columns l @ [nombre]"
    by (simp add: merge_ok_columns [OF so] rc)
  have mk_k: "cell_at (mk e) k = e" for e
    using kn by (simp add: mk_def fila_de_minimo_def cell_at_def)
  have mk_n: "cell_at (mk e) nombre
                = min_fecha (map (\<lambda>r. cell_at r v) (filter (\<lambda>r. cell_at r k = e) (rows df)))" for e
  proof -
    have "select (map (\<lambda>x. x = e) ks) vs
            = map (\<lambda>r. cell_at r v) (filter (\<lambda>r. cell_at r k = e) (rows df))"
      unfolding ks_def vs_def map_map comp_def by (rule select_map_map)
    then show ?thesis
      by (simp add: mk_def fila_de_minimo_def cell_at_def)
  qed
  have pareja: "filter (\<lambda>y. map (cell_at y) [k] = map (cell_at x) [k]) (rows g)
                  = (if cell_at x k \<in> set G then [mk (cell_at x k)] else [])" for x
  proof -
    have "filter (\<lambda>y. map (cell_at y) [k] = map (cell_at x) [k]) (rows g)
          = map mk (filter (\<lambda>e. e = cell_at x k) G)"
      by (simp add: gd filter_map comp_def mk_k)
    also have "filter (\<lambda>e. e = cell_at x k) G = (if cell_at x k \<in> set G then [cell_at x k] else [])"
      by (rule filter_eq_distinct) (simp add: G_def)
    finally show ?thesis by simp
  qed
  have vacio: "min_fecha (map (\<lambda>r. cell_at r v) (filter (\<lambda>r. cell_at r k = e) (rows df))) = NA"
    if "e \<notin> set ks" for e
  proof -
    have "filter (\<lambda>r. cell_at r k = e) (rows df) = []"
      using that by (auto simp: ks_def filter_empty_conv)
    then show ?thesis by (simp add: min_fecha_def fechas_def)
  qed
  have "rows (merge_ok True l g [k] [k]) =
      map (\<lambda>x. renombrar (columns l) (\<lambda>c. c) x ++
               renombrar (merge_rcols g [k] [k]) (\<lambda>c. c)
                 (case filter (\<lambda>y. map (cell_at y) [k] = map (cell_at x) [k]) (rows g) of
                    [] \<Rightarrow> Map.empty | y # ys \<Rightarrow> y)) (rows l)"
    by (rule merge_ok_left_rows_unico [OF so]) (simp only: pareja, simp)
  also have "\<dots> = map (\<lambda>a. renombrar (columns l) (\<lambda>c. c) a ++
            [nombre \<mapsto> (if cell_at a k = NA then NA
                          else min_fecha (map (\<lambda>r. cell_at r v)
                                 (filter (\<lambda>r. cell_at r k = cell_at a k) (rows df))))])
        (rows l)"
    unfolding rc pareja
    by (intro map_cong refl arg_cong2 [where f = map_add])
       (auto simp: renombrar_id fun_eq_iff G_def mk_n vacio cell_at_None)
  finally show "rows (merge_ok True l g [k] [k]) =
      map (\<lambda>a. renombrar (columns l) (\<lambda>c. c) a ++
            [nombre \<mapsto> (if cell_at a k = NA then NA
                          else min_fecha (map (\<lambda>r. cell_at r v)
                                 (filter (\<lambda>r. cell_at r k = cell_at a k) (rows df))))])
        (rows l)" .
qed

lemma cell_at_con_hito:
  "cell_at (renombrar cs (\<lambda>c. c) a ++ [nombre \<mapsto> x]) c
     = (if c = nombre then x else if c \<in> set cs then cell_at a c else NA)"
  by (simp add: cell_at_def renombrar_id map_add_def)

lemma merge_Inr_iff:
  "merge left l r lon ron = Inr x \<longleftrightarrow>
     set lon \<subseteq> set (columns l) \<and> set ron \<subseteq> set (columns r) \<and> x = merge_ok left l r lon ron"
  by (auto simp: merge_def Let_def filter_empty_conv)

lemma limpiar_pasos:
  assumes "limpiar_historial_por_hitos parse h p = Inr (h1, out)"
  obtains ha he where
    "groupby_min
       (filtrar h1
          (map (\<lambda>(e, s). e = Str pruebas_de_admision \<and> s = Str ''Pruebas calificadas'')
             (zip (map (\<lambda>r. cell_at r ''PL_Etapa__c'') (rows h1))
                  (map (\<lambda>r. cell_at r ''PL_Subetapa__c'') (rows h1)))))
       ''LK_Oportunidad__c'' ''CreatedDate'' ''fecha_pruebas_calificadas'' = Inr ha"
    "groupby_min
       (filtrar h1
          (map (\<lambda>(e, s). e = Str matricula_admision \<and> s = Str pago_minimo)
             (zip (map (\<lambda>r. cell_at r ''PL_Etapa__c'') (rows h1))
                  (map (\<lambda>r. cell_at r ''PL_Subetapa__c'') (rows h1)))))
       ''LK_Oportunidad__c'' ''CreatedDate'' ''fecha_matricula_iniciada'' = Inr he"
    "''fecha_pruebas_calificadas'' \<in> set (columns
        (merge_ok True (merge_ok True (merge_ok True h1 ha [''LK_Oportunidad__c''] [''LK_Oportunidad__c''])
           he [''LK_Oportunidad__c''] [''LK_Oportunidad__c'']) p [''LK_Oportunidad__c''] [''ID'']))"
    "''CreatedDate'' \<in> set (columns
        (merge_ok True (merge_ok True (merge_ok True h1 ha [''LK_Oportunidad__c''] [''LK_Oportunidad__c''])
           he [''LK_Oportunidad__c''] [''LK_Oportunidad__c'']) p [''LK_Oportunidad__c''] [''ID'']))"
    "let final0 = merge_ok True (merge_ok True (merge_ok True h1 ha [''LK_Oportunidad__c''] [''LK_Oportunidad__c''])
           he [''LK_Oportunidad__c''] [''LK_Oportunidad__c'']) p [''LK_Oportunidad__c''] [''ID''];
         final1 = loc_set_nan final0
                 (map (\<lambda>(h, c). antes_del_hito h c)
                    (zip (map (\<lambda>r. cell_at r ''fecha_pruebas_calificadas'') (rows final0))
                         (map (\<lambda>r. cell_at r ''CreatedDate'') (rows final0)))) cols_academicas
     in ''fecha_matricula_iniciada'' \<in> set (columns final1)
        \<and> out = loc_set_nan final1
                 (map (\<lambda>(h, c). antes_del_hito h c)
                    (zip (map (\<lambda>r. cell_at r ''fecha_matricula_iniciada'') (rows final1))
                         (map (\<lambda>r. cell_at r ''CreatedDate'') (rows final1)))) cols_economicas"
  using assms unfolding limpiar_historial_por_hitos_def Let_def
  by (auto simp: bind_Inr_iff getitem_Inr_iff to_datetime_Inr_iff merge_Inr_iff)

lemma sin_sufijo:
  assumes "c \<noteq> []" "last c \<noteq> last sfx" "sfx \<noteq> []"
  shows "\<forall>d. c \<noteq> d @ sfx"
  using assms by auto

lemma mascara_de_filas:
  "map (\<lambda>(e, s). P e s) (zip (map f xs) (map g xs)) = map (\<lambda>r. P (f r) (g r)) xs"
  by (induction xs) simp_all

lemma hito_min_fecha:
  "min_fecha (map (\<lambda>r. cell_at r ''CreatedDate'')
      (filter (\<lambda>r. cell_at r ''LK_Oportunidad__c'' = e)
         (rows (filtrar df
            (map (\<lambda>(e, s). e = Str etapa \<and> s = Str subetapa)
               (zip (map (\<lambda>r. cell_at r ''PL_Etapa__c'') (rows df))
                    (map (\<lambda>r. cell_at r ''PL_Subetapa__c'') (rows df))))))))
   = hito (rows df) etapa subetapa e"
proof -
  have "filter (\<lambda>r. cell_at r ''LK_Oportunidad__c'' = e)
         (rows (filtrar df
            (map (\<lambda>(e, s). e = Str etapa \<and> s = Str subetapa)
               (zip (map (\<lambda>r. cell_at r ''PL_Etapa__c'') (rows df))
                    (map (\<lambda>r. cell_at r ''PL_Subetapa__c'') (rows df))))))
        = filter (en_etapa etapa subetapa e) (rows df)"
    unfolding mascara_de_filas rows_filtrar_map
    by (auto simp: en_etapa_def entidad_def intro!: filter_cong)
  then show ?thesis
    by (simp add: hito_def min_fecha_Min inicio_def Let_def cong: map_cong)
qed

text \<open>
  Claim C1. For every row of the opportunity table, with identity key \<open>e\<close>, the label
  written by \<^verbatim>\<open>crear_target\<close> and by \<^verbatim>\<open>crear_target_auditado\<close> is 1 if and only if \<open>e\<close>
  occurs in the stage history in an event with stage \<^verbatim>\<open>Matr\<close>\<open>\<dots>\<close>\<^verbatim>\<open>cula OOGG\<close> and sub-stage
  \<^verbatim>\<open>Formalizada\<close> and in no event with sub-stage \<^verbatim>\<open>Desmatriculado\<close>; it is 0 otherwise, in
  particular when \<open>e\<close> occurs nowhere in the history. The rows and their keys are those of
  the input. (A row whose key is missing has no identity: \<^verbatim>\<open>crear_target\<close> labels it 0.)
\<close>

theorem target_uno_sii_formalizada_y_no_desmatriculada:
  assumes "crear_target oportunidad historial = Inr out
           \<or> crear_target_auditado oportunidad historial = Inr out"
    and "i < length (rows oportunidad)"
    and "e = cell_at (rows oportunidad ! i) ''ID''"
    and "e \<noteq> NA"
  shows "length (rows out) = length (rows oportunidad)
    \<and> cell_at (rows out ! i) ''ID'' = e
    \<and> (cell_at (rows out ! i) ''target'' = Num 1 \<longleftrightarrow>
           formalizada historial e \<and> \<not> desmatriculado_alguna_vez historial e)
    \<and> (cell_at (rows out ! i) ''target'' = Num 0 \<longleftrightarrow>
           \<not> (formalizada historial e \<and> \<not> desmatriculado_alguna_vez historial e))
    \<and> (\<not> en_historial historial e \<longrightarrow> cell_at (rows out ! i) ''target'' = Num 0)"
proof -
  let ?f = "\<lambda>r. if formalizada historial (cell_at r ''ID'')
                        \<and> \<not> desmatriculado_alguna_vez historial (cell_at r ''ID'')
                      then Num 1 else Num 0"
  let ?g = "\<lambda>r. if cell_at r ''ID'' \<noteq> NA \<and> formalizada historial (cell_at r ''ID'')
                        \<and> \<not> desmatriculado_alguna_vez historial (cell_at r ''ID'')
                      then Num 1 else Num 0"
  from assms(1) have "out = setitem oportunidad ''target'' (map ?g (rows oportunidad))
      \<or> out = setitem oportunidad ''target'' (map ?f (rows oportunidad))"
    using crear_target_rows crear_target_auditado_rows by blast
  then have r: "rows out ! i = (rows oportunidad ! i)(''target'' \<mapsto> ?f (rows oportunidad ! i))"
    and l: "length (rows out) = length (rows oportunidad)"
    using assms(2,3,4) by (auto simp: rows_setitem length_rows_setitem)
  have "\<not> en_historial historial e \<Longrightarrow> \<not> formalizada historial e"
    by (auto simp: formalizada_def en_historial_def)
  then show ?thesis
    using assms(3) l by (auto simp: r)
qed

theorem target_uno_sii_formalizada_y_no_desmatriculada_witness:
  "\<exists>out. crear_target ej_oportunidad ej_historial = Inr out
     \<and> cell_at (rows out ! 0) ''target'' = Num 1
     \<and> cell_at (rows out ! 1) ''target'' = Num 0
     \<and> cell_at (rows out ! 2) ''target'' = Num 0"
proof -
  let ?out = "setitem ej_oportunidad ''target'' [Num 1, Num 0, Num 0]"
  have e: "crear_target ej_oportunidad ej_historial = Inr ?out"
    by (simp add: crear_target_def getitem_def ej_oportunidad_def ej_historial_def evento_def
        columnas_historial_def select_def unique_def np_contains_def cell_at_def
        matricula_oogg_def)
  have ids: "Str ''a'' = cell_at (rows ej_oportunidad ! 0) ''ID''"
    "Str ''b'' = cell_at (rows ej_oportunidad ! 1) ''ID''"
    "Str ''c'' = cell_at (rows ej_oportunidad ! 2) ''ID''"
    by (simp_all add: ej_oportunidad_def cell_at_def)
  have n: "0 < length (rows ej_oportunidad)" "1 < length (rows ej_oportunidad)"
    "2 < length (rows ej_oportunidad)"
    by (simp_all add: ej_oportunidad_def)
  have fa: "formalizada ej_historial (Str ''a'')"
    and da: "\<not> desmatriculado_alguna_vez ej_historial (Str ''a'')"
    and db: "desmatriculado_alguna_vez ej_historial (Str ''b'')"
    and hc: "\<not> en_historial ej_historial (Str ''c'')"
    by (simp_all add: formalizada_def desmatriculado_alguna_vez_def en_historial_def
        ej_historial_def evento_def cell_at_def)
  from target_uno_sii_formalizada_y_no_desmatriculada [OF disjI1 [OF e] n(1) ids(1)] fa da
  have t0: "cell_at (rows ?out ! 0) ''target'' = Num 1" by simp
  from target_uno_sii_formalizada_y_no_desmatriculada [OF disjI1 [OF e] n(2) ids(2)] db
  have t1: "cell_at (rows ?out ! 1) ''target'' = Num 0" by simp
  from target_uno_sii_formalizada_y_no_desmatriculada [OF disjI1 [OF e] n(3) ids(3)] hc
  have t2: "cell_at (rows ?out ! 2) ''target'' = Num 0" by simp
  show ?thesis
    by (rule exI [of _ ?out]) (simp only: e t0 t1 t2 simp_thms)
qed

text \<open>
  Claim C10. There are valid inputs on which \<^verbatim>\<open>crear_target\<close> raises a division by
  zero instead of returning the opportunities, all labelled 0: every stage history that
  has the three columns and at least one event, but no event with stage
  \<^verbatim>\<open>Matr\<close>\<open>\<dots>\<close>\<^verbatim>\<open>cula OOGG\<close> and sub-stage \<^verbatim>\<open>Formalizada\<close>, together with any table of
  opportunities. The divisor is the number of enrolled opportunities, in the second
  \<^verbatim>\<open>print\<close>.
\<close>

theorem crear_target_division_por_cero:
  assumes "''PL_Etapa__c'' \<in> set (columns h)" "''PL_Subetapa__c'' \<in> set (columns h)"
    "''LK_Oportunidad__c'' \<in> set (columns h)"
    and "rows h \<noteq> []"
    and "\<not> (\<exists>ev \<in> set (rows h). cell_at ev ''PL_Etapa__c'' = Str matricula_oogg
                              \<and> cell_at ev ''PL_Subetapa__c'' = Str ''Formalizada'')"
  shows "crear_target op h = Inl ZeroDivisionError"
proof -
  let ?p = "\<lambda>r. cell_at r ''PL_Etapa__c'' = Str matricula_oogg
                \<and> cell_at r ''PL_Subetapa__c'' = Str ''Formalizada''"
  let ?f = "\<lambda>r. cell_at r ''LK_Oportunidad__c''"
  have "set (select (map ?p (rows h)) (map ?f (rows h))) = {}"
    unfolding set_select_map using assms(5) by auto
  then have "select (map ?p (rows h)) (map ?f (rows h)) = []" by simp
  moreover have "map (\<lambda>(e, s). e = Str matricula_oogg \<and> s = Str ''Formalizada'')
       (zip (map (\<lambda>r. cell_at r ''PL_Etapa__c'') (rows h)) (map (\<lambda>r. cell_at r ''PL_Subetapa__c'') (rows h)))
      = map ?p (rows h)"
    by (simp add: zip_map_map zip_same_conv_map)
  ultimately show ?thesis
    using assms(1-4) by (simp add: crear_target_def getitem_def Let_def)
qed

theorem crear_target_division_por_cero_witness:
  "rows ej_historial_sin_matricula \<noteq> []
   \<and> crear_target ej_oportunidad ej_historial_sin_matricula = Inl ZeroDivisionError"
proof -
  have c: "''PL_Etapa__c'' \<in> set (columns ej_historial_sin_matricula)"
    "''PL_Subetapa__c'' \<in> set (columns ej_historial_sin_matricula)"
    "''LK_Oportunidad__c'' \<in> set (columns ej_historial_sin_matricula)"
    by (simp_all add: ej_historial_sin_matricula_def columnas_historial_def)
  have r: "rows ej_historial_sin_matricula \<noteq> []"
    by (simp add: ej_historial_sin_matricula_def)
  have n: "\<not> (\<exists>ev \<in> set (rows ej_historial_sin_matricula).
             cell_at ev ''PL_Etapa__c'' = Str matricula_oogg
             \<and> cell_at ev ''PL_Subetapa__c'' = Str ''Formalizada'')"
    by (simp add: ej_historial_sin_matricula_def evento_def cell_at_def)
  from crear_target_division_por_cero [OF c r n, of ej_oportunidad] r show ?thesis
    by simp
qed


text \<open>
  Claim C5. The guard sets the payment fields it finds in the frame to missing on every
  row whose stage \<^verbatim>\<open>PL_Etapa__c\<close> is one of \<^verbatim>\<open>Solicitud\<close>, \<^verbatim>\<open>Pruebas\<close>,
  \<^verbatim>\<open>Admisi\<close>\<open>\<dots>\<close>\<^verbatim>\<open>n acad\<close>\<open>\<dots>\<close>\<^verbatim>\<open>mica\<close> and that has a payment field which is not missing, and
  leaves the other rows as they are. Applied to its own result it returns that result
  unchanged: twice is the same table as once.
\<close>

theorem control_leakage_idempotente:
  assumes "control_leakage df = Inr out"
  shows "control_leakage out = Inr out
     \<and> columns out = columns df
     \<and> rows out = map (\<lambda>r. if mask_futuro (vars_pago_de df) r
                              then anular (vars_pago_de df) r else r) (rows df)"
proof -
  let ?vs = "vars_pago_de df"
  have out: "out = \<lparr>columns = columns df,
                rows = map (\<lambda>r. if mask_futuro ?vs r then anular ?vs r else r) (rows df)\<rparr>"
    by (rule control_leakage_rows [OF assms])
  then have cols: "columns out = columns df" by simp
  then have vs: "vars_pago_de out = ?vs" by (simp add: vars_pago_de_def)
  have "''PL_Etapa__c'' \<in> set (columns out)"
    using control_leakage_Inr_iff [of df] assms cols by auto
  then obtain out2 where o2: "control_leakage out = Inr out2"
    using control_leakage_Inr_iff [of out] by auto
  have "out2 = \<lparr>columns = columns out,
                rows = map (\<lambda>r. if mask_futuro ?vs r then anular ?vs r else r) (rows out)\<rparr>"
    using control_leakage_rows [OF o2] by (simp add: vs)
  also have "map (\<lambda>r. if mask_futuro ?vs r then anular ?vs r else r) (rows out) = rows out"
    unfolding out by (simp add: mask_futuro_anular)
  finally have "out2 = out" by simp
  with o2 out show ?thesis by simp
qed

theorem control_leakage_idempotente_witness:
  "\<exists>out. control_leakage ej_definitivo = Inr out
     \<and> control_leakage out = Inr out
     \<and> map (\<lambda>r. cell_at r ''PAID_AMOUNT'') (rows out) = [NA, Num 100, NA]
     \<and> map (\<lambda>r. cell_at r ''CU_precioAplicado_def__c'') (rows out) = [NA, Num 50, NA]"
proof -
  have "''PL_Etapa__c'' \<in> set (columns ej_definitivo)"
    by (simp add: ej_definitivo_def)
  then obtain out where o: "control_leakage ej_definitivo = Inr out"
    using control_leakage_Inr_iff [of ej_definitivo] by blast
  have vs: "vars_pago_de ej_definitivo = [''PAID_AMOUNT'', ''CU_precioAplicado_def__c'']"
    by (simp add: vars_pago_de_def vars_pago_todas_def ej_definitivo_def)
  from control_leakage_idempotente [OF o]
  have i: "control_leakage out = Inr out"
    and r: "rows out = map (\<lambda>r. if mask_futuro (vars_pago_de ej_definitivo) r
                              then anular (vars_pago_de ej_definitivo) r else r)
                         (rows ej_definitivo)"
    by simp_all
  have m: "map (mask_futuro [''PAID_AMOUNT'', ''CU_precioAplicado_def__c''])
             (rows ej_definitivo) = [True, False, True]"
    by (simp add: ej_definitivo_def fila_precio_def mask_futuro_def etapas_pago_def
        matricula_oogg_def cell_at_def)
  have p1: "map (\<lambda>r. cell_at r ''PAID_AMOUNT'') (rows out) = [NA, Num 100, NA]"
    using m unfolding r vs
    by (simp add: ej_definitivo_def cell_at_anular) (simp add: fila_precio_def cell_at_def)
  have p2: "map (\<lambda>r. cell_at r ''CU_precioAplicado_def__c'') (rows out) = [NA, Num 50, NA]"
    using m unfolding r vs
    by (simp add: ej_definitivo_def cell_at_anular) (simp add: fila_precio_def cell_at_def)
  show ?thesis
    by (rule exI [of _ out]) (simp only: o i p1 p2 simp_thms)
qed






text \<open>
  Claim C2. For every row of the result of the aggregator, the two counters count only
  activities whose timestamp is strictly less than the timestamp of the row: each counter
  is a count over the activities strictly before the row, and every activity that
  qualifies has a timestamp and is strictly earlier. An activity at or after the time of
  the row, or without timestamp, is never counted: two activity tables with the same
  activities strictly before the row give the row the same counters.
\<close>

theorem contadores_sin_actividad_futura:
  assumes "integrar_actividades_progresivo_por_curso parse df_master df_actividades
             = Inr (m1, res)"
    and "integrar_actividades_progresivo_por_curso parse df_master otras = Inr (m2, res2)"
    and "nombres_libres df_master"
    and "i < length (rows df_master)"
    and "filter (anterior parse (rows df_master ! i)) (rows df_actividades)
           = filter (anterior parse (rows df_master ! i)) (rows otras)"
  shows "cell_at (rows res ! i) ''num_asistencias_acum''
           = Num (of_nat (length (filter
                  (\<lambda>b. actividad_previa parse (rows df_master ! i) b \<and> estado_es [''asiste''] b)
                  (filter (anterior parse (rows df_master ! i)) (rows df_actividades)))))
     \<and> cell_at (rows res ! i) ''num_solicitudes_acum''
           = Num (of_nat (length (filter
                  (\<lambda>b. actividad_previa parse (rows df_master ! i) b
                        \<and> estado_es [''solicitado'', ''solicita asistir''] b)
                  (filter (anterior parse (rows df_master ! i)) (rows df_actividades)))))
     \<and> (\<forall>b. anterior parse (rows df_master ! i) b \<longleftrightarrow>
            (\<exists>t s. fecha_de parse (cell_at b ''CreatedDate'') = Date t
                 \<and> fecha_de parse (cell_at (rows df_master ! i) ''CreatedDate'') = Date s
                 \<and> t < s))
     \<and> cell_at (rows res2 ! i) ''num_asistencias_acum''
           = cell_at (rows res ! i) ''num_asistencias_acum''
     \<and> cell_at (rows res2 ! i) ''num_solicitudes_acum''
           = cell_at (rows res ! i) ''num_solicitudes_acum''"
proof -
  let ?r = "rows df_master ! i"
  have f: "filter (\<lambda>b. actividad_previa parse ?r b \<and> q b) xs
             = filter (\<lambda>b. actividad_previa parse ?r b \<and> q b) (filter (anterior parse ?r) xs)"
    for q xs
    by (auto simp: actividad_previa_def intro!: filter_cong)
  have m: "fecha_menor x y \<longleftrightarrow> (\<exists>t s. x = Date t \<and> y = Date s \<and> t < s)" for x y
    by (cases x; cases y) simp_all
  from integrar_Inr [OF assms(1,3)] assms(4)
  have a: "cell_at (rows res ! i) ''num_asistencias_acum''
              = Num (of_nat (asistencias_previas parse ?r (rows df_actividades)))"
    and s: "cell_at (rows res ! i) ''num_solicitudes_acum''
              = Num (of_nat (solicitudes_previas parse ?r (rows df_actividades)))"
    by simp_all
  from integrar_Inr [OF assms(2,3)] assms(4)
  have a2: "cell_at (rows res2 ! i) ''num_asistencias_acum''
              = Num (of_nat (asistencias_previas parse ?r (rows otras)))"
    and s2: "cell_at (rows res2 ! i) ''num_solicitudes_acum''
              = Num (of_nat (solicitudes_previas parse ?r (rows otras)))"
    by simp_all
  have e1: "asistencias_previas parse ?r (rows otras)
              = asistencias_previas parse ?r (rows df_actividades)"
    unfolding asistencias_previas_def
    by (subst f, subst (2) f) (simp only: assms(5))
  have e2: "solicitudes_previas parse ?r (rows otras)
              = solicitudes_previas parse ?r (rows df_actividades)"
    unfolding solicitudes_previas_def
    by (subst f, subst (2) f) (simp only: assms(5))
  have c1: "cell_at (rows res ! i) ''num_asistencias_acum''
           = Num (of_nat (length (filter
                  (\<lambda>b. actividad_previa parse ?r b \<and> estado_es [''asiste''] b)
                  (filter (anterior parse ?r) (rows df_actividades)))))"
    unfolding a asistencias_previas_def by (subst f) (rule refl)
  have c2: "cell_at (rows res ! i) ''num_solicitudes_acum''
           = Num (of_nat (length (filter
                  (\<lambda>b. actividad_previa parse ?r b
                        \<and> estado_es [''solicitado'', ''solicita asistir''] b)
                  (filter (anterior parse ?r) (rows df_actividades)))))"
    unfolding s solicitudes_previas_def by (subst f) (rule refl)
  have c3: "\<forall>b. anterior parse ?r b \<longleftrightarrow>
            (\<exists>t s. fecha_de parse (cell_at b ''CreatedDate'') = Date t
                 \<and> fecha_de parse (cell_at ?r ''CreatedDate'') = Date s \<and> t < s)"
    by (simp add: anterior_def m)
  have c4: "cell_at (rows res2 ! i) ''num_asistencias_acum''
              = cell_at (rows res ! i) ''num_asistencias_acum''"
    by (simp only: a a2 e1)
  have c5: "cell_at (rows res2 ! i) ''num_solicitudes_acum''
              = cell_at (rows res ! i) ''num_solicitudes_acum''"
    by (simp only: s s2 e2)
  show ?thesis
    by (intro conjI c1 c2 c3 c4 c5)
qed

theorem contadores_sin_actividad_futura_witness:
  "\<exists>m1 res m2 res2.
       integrar_actividades_progresivo_por_curso sin_parser ej_master ej_actividades
         = Inr (m1, res)
     \<and> integrar_actividades_progresivo_por_curso sin_parser ej_master ej_actividades_antes
         = Inr (m2, res2)
     \<and> length (rows ej_actividades) = length (rows ej_actividades_antes) + 2
     \<and> cell_at (rows res2 ! 0) ''num_asistencias_acum''
         = cell_at (rows res ! 0) ''num_asistencias_acum''
     \<and> cell_at (rows res2 ! 0) ''num_solicitudes_acum''
         = cell_at (rows res ! 0) ''num_solicitudes_acum''"
proof -
  from integrar_exito [OF ej_actividades_ok(1) ej_master_ok(1) ej_actividades_ok(2)
      ej_master_ok(2,3)]
  obtain m1 res where
    e: "integrar_actividades_progresivo_por_curso sin_parser ej_master ej_actividades
          = Inr (m1, res)"
    by blast
  from integrar_exito [OF ej_actividades_ok(3) ej_master_ok(1) ej_actividades_ok(4)
      ej_master_ok(2,3)]
  obtain m2 res2 where
    e2: "integrar_actividades_progresivo_por_curso sin_parser ej_master ej_actividades_antes
          = Inr (m2, res2)"
    by blast
  have i: "0 < length (rows ej_master)"
    by (simp add: ej_master_ok(4))
  have n: "\<not> anterior sin_parser (rows ej_master ! 0)
              (actividad (Str ''A'') (Str ''C'') (Date 15) (Str ''asiste'') (Str ''Open Day''))"
    "\<not> anterior sin_parser (rows ej_master ! 0)
              (actividad (Str ''A'') (Str ''C'') (Date 10) (Str ''asiste'') (Str ''Open Day''))"
    by code_simp+
  have p: "filter (anterior sin_parser (rows ej_master ! 0)) (rows ej_actividades)
         = filter (anterior sin_parser (rows ej_master ! 0)) (rows ej_actividades_antes)"
    using n by (simp add: ej_actividades_def ej_actividades_antes_def)
  have l: "length (rows ej_actividades) = length (rows ej_actividades_antes) + 2"
    by (simp add: ej_actividades_def ej_actividades_antes_def)
  from contadores_sin_actividad_futura [OF e e2 ej_master_ok(3) i p]
  have c: "cell_at (rows res2 ! 0) ''num_asistencias_acum''
             = cell_at (rows res ! 0) ''num_asistencias_acum''"
    "cell_at (rows res2 ! 0) ''num_solicitudes_acum''
             = cell_at (rows res ! 0) ''num_solicitudes_acum''"
    by simp_all
  show ?thesis
    by (rule exI [of _ m1], rule exI [of _ res], rule exI [of _ m2], rule exI [of _ res2])
       (simp only: e e2 l c simp_thms)
qed




text \<open>
  Claim C9, as the code has it. The functions write into the frames they receive, in these
  columns only. The two target labelers write the column \<^verbatim>\<open>target\<close> of the opportunity
  table. \<^verbatim>\<open>calcular_tiempos_etapas\<close> overwrites \<^verbatim>\<open>CreatedDate\<close> and \<^verbatim>\<open>Fecha_fin_etapa__c\<close> of
  the history it receives, and \<^verbatim>\<open>limpiar_historial_por_hitos\<close> overwrites \<^verbatim>\<open>CreatedDate\<close>,
  with the timestamps \<^verbatim>\<open>pd.to_datetime\<close> makes of them, which changes no cell that holds a
  timestamp or is missing. \<^verbatim>\<open>integrar_actividades_progresivo_por_curso\<close> leaves every
  column of its master table other than \<^verbatim>\<open>MasterDate\<close> as it was. The column labels
  (\<^verbatim>\<open>target\<close> and \<^verbatim>\<open>MasterDate\<close> apart), their order, the number and the order of the rows
  stay. The activity table is only read: line 227 filters it into a copy.
\<close>

theorem entradas_tras_la_llamada:
  "(calcular_tiempos_etapas parse h = Inr (h1, out) \<longrightarrow>
      columns h1 = columns h \<and> length (rows h1) = length (rows h)
      \<and> (\<forall>i<length (rows h). \<forall>c.
            (c \<noteq> ''CreatedDate'' \<and> c \<noteq> ''Fecha_fin_etapa__c''
               \<longrightarrow> (rows h1 ! i) c = (rows h ! i) c)
          \<and> (c = ''CreatedDate'' \<or> c = ''Fecha_fin_etapa__c''
               \<longrightarrow> (rows h1 ! i) c = Some (fecha_de parse (cell_at (rows h ! i) c)))))
   \<and> (limpiar_historial_por_hitos parse h p = Inr (h2, out2) \<longrightarrow>
      columns h2 = columns h \<and> length (rows h2) = length (rows h)
      \<and> (\<forall>i<length (rows h). \<forall>c.
            (c \<noteq> ''CreatedDate'' \<longrightarrow> (rows h2 ! i) c = (rows h ! i) c)
          \<and> (c = ''CreatedDate''
               \<longrightarrow> (rows h2 ! i) c = Some (fecha_de parse (cell_at (rows h ! i) c)))))
   \<and> (integrar_actividades_progresivo_por_curso parse m a = Inr (m1, res) \<longrightarrow>
      filter (\<lambda>c. c \<noteq> ''MasterDate'') (columns m1) = filter (\<lambda>c. c \<noteq> ''MasterDate'') (columns m)
      \<and> length (rows m1) = length (rows m)
      \<and> (\<forall>i<length (rows m). \<forall>c. c \<noteq> ''MasterDate'' \<longrightarrow> (rows m1 ! i) c = (rows m ! i) c))
   \<and> (crear_target op e = Inr op1 \<or> crear_target_auditado op e = Inr op1 \<longrightarrow>
      filter (\<lambda>c. c \<noteq> ''target'') (columns op1) = filter (\<lambda>c. c \<noteq> ''target'') (columns op)
      \<and> length (rows op1) = length (rows op)
      \<and> (\<forall>i<length (rows op). \<forall>c. c \<noteq> ''target'' \<longrightarrow> (rows op1 ! i) c = (rows op ! i) c))
   \<and> (\<forall>c. es_fecha c \<longrightarrow> fecha_de parse c = c)"
proof (intro conjI impI)
  let ?CD = "''CreatedDate''" and ?FF = "''Fecha_fin_etapa__c''"
  have otra: "filter (\<lambda>c. c \<noteq> k) (columns (setitem df k vs)) = filter (\<lambda>c. c \<noteq> k) (columns df)"
    for df k vs
    by (simp add: setitem_def)
  {
    assume "calcular_tiempos_etapas parse h = Inr (h1, out)"
    from calcular_entrada [OF this]
    have c: "?CD \<in> set (columns h)" "?FF \<in> set (columns h)"
      and h1: "h1 = setitem (setitem h ?CD (map (fecha_de parse) (map (\<lambda>r. cell_at r ?CD) (rows h))))
                 ?FF (map (fecha_de parse) (map (\<lambda>r. cell_at r ?FF) (rows h)))"
      by simp_all
    show "columns h1 = columns h" "length (rows h1) = length (rows h)"
      using c by (simp_all add: h1 setitem_def)
    show "\<forall>i<length (rows h). \<forall>c.
            (c \<noteq> ?CD \<and> c \<noteq> ?FF \<longrightarrow> (rows h1 ! i) c = (rows h ! i) c)
          \<and> (c = ?CD \<or> c = ?FF \<longrightarrow> (rows h1 ! i) c = Some (fecha_de parse (cell_at (rows h ! i) c)))"
      by (auto simp: h1 setitem_def)
  }
  {
    assume "limpiar_historial_por_hitos parse h p = Inr (h2, out2)"
    from limpiar_entrada [OF this]
    have c: "?CD \<in> set (columns h)"
      and h2: "h2 = setitem h ?CD (map (fecha_de parse) (map (\<lambda>r. cell_at r ?CD) (rows h)))"
      by simp_all
    show "columns h2 = columns h" "length (rows h2) = length (rows h)"
      using c by (simp_all add: h2 setitem_def)
    show "\<forall>i<length (rows h). \<forall>c.
            (c \<noteq> ?CD \<longrightarrow> (rows h2 ! i) c = (rows h ! i) c)
          \<and> (c = ?CD \<longrightarrow> (rows h2 ! i) c = Some (fecha_de parse (cell_at (rows h ! i) c)))"
      by (auto simp: h2 setitem_def)
  }
  {
    assume "integrar_actividades_progresivo_por_curso parse m a = Inr (m1, res)"
    from integrar_entrada [OF this]
    have m1: "m1 = setitem m ''MasterDate''
                (map (fecha_de parse) (map (\<lambda>r. cell_at r ?CD) (rows m)))" .
    show "filter (\<lambda>c. c \<noteq> ''MasterDate'') (columns m1)
            = filter (\<lambda>c. c \<noteq> ''MasterDate'') (columns m)"
      unfolding m1 by (rule otra)
    show "length (rows m1) = length (rows m)"
      by (simp add: m1 setitem_def)
    show "\<forall>i<length (rows m). \<forall>c. c \<noteq> ''MasterDate'' \<longrightarrow> (rows m1 ! i) c = (rows m ! i) c"
      by (simp add: m1 setitem_def)
  }
  {
    assume "crear_target op e = Inr op1 \<or> crear_target_auditado op e = Inr op1"
    then obtain f where o: "op1 = setitem op ''target'' (map f (rows op))"
      using crear_target_rows crear_target_auditado_rows by blast
    show "filter (\<lambda>c. c \<noteq> ''target'') (columns op1) = filter (\<lambda>c. c \<noteq> ''target'') (columns op)"
      unfolding o by (rule otra)
    show "length (rows op1) = length (rows op)"
      by (simp add: o setitem_def)
    show "\<forall>i<length (rows op). \<forall>c. c \<noteq> ''target'' \<longrightarrow> (rows op1 ! i) c = (rows op ! i) c"
      by (simp add: o setitem_def)
  }
  show "\<forall>c. es_fecha c \<longrightarrow> fecha_de parse c = c"
    by (simp add: es_fecha_igual)
qed

theorem entradas_tras_la_llamada_witness:
  "(\<exists>h1 out. calcular_tiempos_etapas sin_parser ej_historial = Inr (h1, out)
        \<and> columns h1 = columns ej_historial \<and> length (rows h1) = length (rows ej_historial))
   \<and> (\<exists>m1 res. integrar_actividades_progresivo_por_curso sin_parser ej_master ej_actividades
                  = Inr (m1, res)
        \<and> length (rows m1) = length (rows ej_master)
        \<and> (rows m1 ! 0) ''ID18__PC'' = (rows ej_master ! 0) ''ID18__PC'')"
proof -
  have "(case calcular_tiempos_etapas sin_parser ej_historial of
           Inl e \<Rightarrow> False | Inr x \<Rightarrow> True)"
    by code_simp
  then obtain h1 out where c: "calcular_tiempos_etapas sin_parser ej_historial = Inr (h1, out)"
    by (auto split: sum.splits)
  from integrar_exito [OF ej_actividades_ok(1) ej_master_ok(1) ej_actividades_ok(2)
      ej_master_ok(2,3)]
  obtain m1 res where
    e: "integrar_actividades_progresivo_por_curso sin_parser ej_master ej_actividades
          = Inr (m1, res)"
    by blast
  note t = entradas_tras_la_llamada [of sin_parser]
  from t [of ej_historial h1 out] c
  have a: "columns h1 = columns ej_historial" "length (rows h1) = length (rows ej_historial)"
    by simp_all
  from t [of _ _ _ _ _ _ ej_master ej_actividades m1 res] e
  have l: "length (rows m1) = length (rows ej_master)"
    and r: "\<forall>i<length (rows ej_master). \<forall>c. c \<noteq> ''MasterDate''
               \<longrightarrow> (rows m1 ! i) c = (rows ej_master ! i) c"
    by simp_all
  have "0 < length (rows ej_master)"
    by (simp add: ej_master_ok(4))
  with r have b: "(rows m1 ! 0) ''ID18__PC'' = (rows ej_master ! 0) ''ID18__PC''"
    by simp
  have A: "\<exists>h1 out. calcular_tiempos_etapas sin_parser ej_historial = Inr (h1, out)
        \<and> columns h1 = columns ej_historial \<and> length (rows h1) = length (rows ej_historial)"
    by (rule exI [of _ h1], rule exI [of _ out]) (simp only: c a simp_thms)
  have B: "\<exists>m1 res. integrar_actividades_progresivo_por_curso sin_parser ej_master ej_actividades
                  = Inr (m1, res)
        \<and> length (rows m1) = length (rows ej_master)
        \<and> (rows m1 ! 0) ''ID18__PC'' = (rows ej_master ! 0) ''ID18__PC''"
    by (rule exI [of _ m1], rule exI [of _ res]) (simp only: e l b simp_thms)
  from A B show ?thesis by (rule conjI)
qed

text \<open>
  The master table of the caller does change: after the call it has the column
  \<^verbatim>\<open>MasterDate\<close>.
\<close>

theorem integrar_cambia_el_maestro:
  "\<not> isl (integrar_actividades_progresivo_por_curso sin_parser ej_master ej_actividades)
   \<and> columns (fst (projr (integrar_actividades_progresivo_por_curso sin_parser ej_master
                            ej_actividades)))
       = [''ID18__PC'', ''PL_CURSO_ACADEMICO'', ''CreatedDate'', ''MasterDate'']
   \<and> columns ej_master = [''ID18__PC'', ''PL_CURSO_ACADEMICO'', ''CreatedDate'']
   \<and> fst (projr (integrar_actividades_progresivo_por_curso sin_parser ej_master
                   ej_actividades)) \<noteq> ej_master"
proof -
  from integrar_exito [OF ej_actividades_ok(1) ej_master_ok(1) ej_actividades_ok(2)
      ej_master_ok(2,3)]
  obtain res where
    e: "integrar_actividades_progresivo_por_curso sin_parser ej_master ej_actividades
          = Inr (setitem ej_master ''MasterDate''
                   (map (fecha_de sin_parser) (map (\<lambda>r. cell_at r ''CreatedDate'') (rows ej_master))),
                 res)"
    by blast
  have c: "columns (setitem ej_master ''MasterDate''
                   (map (fecha_de sin_parser) (map (\<lambda>r. cell_at r ''CreatedDate'') (rows ej_master))))
           = [''ID18__PC'', ''PL_CURSO_ACADEMICO'', ''CreatedDate'', ''MasterDate'']"
    and d: "columns ej_master = [''ID18__PC'', ''PL_CURSO_ACADEMICO'', ''CreatedDate'']"
    by (simp_all add: setitem_def ej_master_def)
  have n: "setitem ej_master ''MasterDate''
                   (map (fecha_de sin_parser) (map (\<lambda>r. cell_at r ''CreatedDate'') (rows ej_master)))
           \<noteq> ej_master"
    using c d by (metis append_Cons append_Nil append_self_conv list.distinct(1) same_append_eq)
  show ?thesis
    unfolding e using c d n by simp
qed


end
